theory Spec2Isabelle
  imports Complex_Main "HOL-Library.AList" "HOL-Library.List_Lexorder" "HOL-Library.Char_ord"
begin

section \<open>Python values and exceptions\<close>

text \<open>
  Python numbers are modelled as reals and the arithmetic on them as exact; a conversion
  that the source performs (\<open>float(x)\<close>, storing into a single-precision array) is
  modelled as the rounding it is. An argument that may be \<open>None\<close> is an \<open>option\<close>. A
  raised exception is the \<open>Inl\<close> branch of a sum.
\<close>

datatype py_error =
    AssertionError string
  | IndexError
  | TypeError
  | AttributeError
  | ValueError
  | ZeroDivisionError
  | OverflowError
  | OSError string
  | ImportError string
  | RuntimeError string

type_synonym vec3 = "real \<times> real \<times> real"

text \<open>Truth value of an optional number: \<open>None\<close> and \<open>0\<close> are false.\<close>

definition truthy :: "real option \<Rightarrow> bool" where
  "truthy v = (case v of None \<Rightarrow> False | Some r \<Rightarrow> r \<noteq> 0)"

section \<open>utils.py: the numeric utilities\<close>

text \<open>
  Python 3's built-in \<open>round\<close> on one argument returns the nearest integer and resolves a
  tie to the even neighbour.
\<close>

definition py_round :: "real \<Rightarrow> int" where
  "py_round q =
     (let f = \<lfloor>q\<rfloor>; r = q - of_int f
      in if r < 1 / 2 then f
         else if 1 / 2 < r then f + 1
         else if even f then f else f + 1)"

text \<open>
  Where the source converts a number to a binary floating-point format, the conversion
  is part of the model: \<open>round_float p emin\<close> rounds a real to the nearest number with a
  significand of \<open>p\<close> bits and least exponent \<open>emin\<close>, a tie going to the even
  significand. Results of magnitude \<open>2 ^ 128\<close> (single) or \<open>2 ^ 1024\<close> (double) and above
  stand for values the format cannot hold.
\<close>

definition round_float :: "nat \<Rightarrow> int \<Rightarrow> real \<Rightarrow> real" where
  "round_float p emin x =
     (if x = 0 then 0
      else let e = max \<lfloor>log 2 \<bar>x\<bar>\<rfloor> emin;
               u = 2 powr (of_int e - of_nat (p - 1))
           in of_int (py_round (x / u)) * u)"

definition round_single :: "real \<Rightarrow> real" where
  "round_single x = round_float 24 (- 126) x"





text \<open>
  \<open>math.atan2 y x\<close> on reals: the angle of the vector \<open>(x, y)\<close> in \<open>(-pi, pi]\<close>,
  and \<open>0\<close> at the origin.
\<close>

definition atan2 :: "real \<Rightarrow> real \<Rightarrow> real" where
  "atan2 y x =
     (if 0 < x then arctan (y / x)
      else if x < 0 \<and> 0 \<le> y then arctan (y / x) + pi
      else if x < 0 then arctan (y / x) - pi
      else if 0 < y then pi / 2
      else if y < 0 then - (pi / 2)
      else 0)"

text \<open>\<^verbatim>\<open>return math.atan2(y, x) * 180 / math.pi\<close>\<close>

definition normal_to_angle :: "real \<Rightarrow> real \<Rightarrow> real" where
  "normal_to_angle x y = atan2 y x * 180 / pi"

text \<open>
  \<^verbatim>\<open>
  def translate_point(data, x0=0, y0=0, z0=0, scale=1):
      return [(data[0] - x0) * scale, (data[1] - y0) * scale, (data[2] - z0) * scale]
  \<close>
  Reading \<open>data[2]\<close> of a shorter list raises \<open>IndexError\<close>.
\<close>

definition translate_point ::
  "real list \<Rightarrow> real \<Rightarrow> real \<Rightarrow> real \<Rightarrow> real \<Rightarrow> py_error + real list" where
  "translate_point data x0 y0 z0 scale =
     (if length data < 3 then Inl IndexError
      else Inr [(data ! 0 - x0) * scale,
                (data ! 1 - y0) * scale,
                (data ! 2 - z0) * scale])"

text \<open>The call with every keyword argument left at its default.\<close>

definition translate_point_default :: "real list \<Rightarrow> py_error + real list" where
  "translate_point_default data = translate_point data 0 0 0 1"

section \<open>The host toolkit, as far as the scripts drive it\<close>

text \<open>
  The host application is not part of the repository. It is modelled as a state that the
  calls of \<open>paraview.simple\<close> read and update: a registry of live pipeline proxies
  (readers, filters) under fresh identifiers, the display properties of each, and a record
  of what was rendered and saved. A point-data mesh is a list of points with one scalar
  per point.
\<close>

record mesh =
  points :: "vec3 list"
  scalars :: "real list"
  array_name :: string

text \<open>
  \<open>vtkDataSet.GetBounds()\<close>: \<open>(xmin, xmax, ymin, ymax, zmin, zmax)\<close> over the points,
  and the uninitialised bounds \<open>(1, -1, 1, -1, 1, -1)\<close> of a data set with no point.
\<close>

definition GetBounds :: "mesh \<Rightarrow> real \<times> real \<times> real \<times> real \<times> real \<times> real" where
  "GetBounds m =
     (case points m of
        [] \<Rightarrow> (1, - 1, 1, - 1, 1, - 1)
      | (x, y, z) # ps \<Rightarrow>
          (fold min (map fst ps) x, fold max (map fst ps) x,
           fold min (map (fst \<circ> snd) ps) y, fold max (map (fst \<circ> snd) ps) y,
           fold min (map (snd \<circ> snd) ps) z, fold max (map (snd \<circ> snd) ps) z))"

text \<open>
  The script text of \<open>scale_input\<close> is an f-string with three holes. A script is kept as
  the values that fill the holes: \<open>{zero_origin}\<close> prints as \<open>True\<close> or \<open>False\<close>,
  \<open>{scale_coords}\<close> and \<open>{scale_data}\<close> print as number literals.
\<close>

record filter_script =
  script_zero_origin :: bool
  script_scale_coords :: real
  script_scale_data :: real

text \<open>
  What the host computes when it runs the script text on the input \<open>pdi\<close>:
  \<^verbatim>\<open>
  numPoints = pdi.GetNumberOfPoints()
  min_x, _, min_y, _, _, _ = pdi.GetBounds()
  for i in range(0, numPoints):
      x, y, z = pdi.GetPoint(i)[:3]
      if {zero_origin}:
          x -= min_x
          y -= min_y
      if {scale_coords}:
          x *= {scale_coords}
          y *= {scale_coords}
          z *= {scale_coords}
      newPoints.InsertPoint(i, x, y, z)
  pdo.SetPoints(newPoints)
  ivals = pdi.GetPointData().GetScalars()
  ca.SetName(ivals.GetName())
  for i in range(0, numPoints):
      ca.SetValue(i, ivals.GetValue(i) * {scale_data})
  pdo.GetPointData().AddArray(ca)
  \<close>
  A number literal is true in \<open>if {scale_coords}:\<close> when it is not zero.
\<close>

definition script_point :: "filter_script \<Rightarrow> real \<Rightarrow> real \<Rightarrow> vec3 \<Rightarrow> vec3" where
  "script_point s min_x min_y coords =
     (case coords of (x, y, z) \<Rightarrow>
        (case (if script_zero_origin s then (x - min_x, y - min_y) else (x, y)) of
           (x1, y1) \<Rightarrow>
             (if script_scale_coords s \<noteq> 0
              then (x1 * script_scale_coords s, y1 * script_scale_coords s,
                    z * script_scale_coords s)
              else (x1, y1, z))))"

text \<open>
  \<open>vtk.vtkPoints()\<close> and \<open>vtk.vtkFloatArray()\<close> hold single-precision values: what
  \<open>InsertPoint\<close> and \<open>SetValue\<close> store is the value rounded to single precision.
\<close>

definition single_point :: "vec3 \<Rightarrow> vec3" where
  "single_point coords =
     (case coords of (x, y, z) \<Rightarrow> (round_single x, round_single y, round_single z))"

definition run_script :: "filter_script \<Rightarrow> mesh \<Rightarrow> mesh" where
  "run_script s pdi =
     (let numPoints = length (points pdi) in
      case GetBounds pdi of (min_x, _, min_y, _, _, _) \<Rightarrow>
        \<lparr>points = map (\<lambda>i. single_point (script_point s min_x min_y (points pdi ! i)))
                   [0..<numPoints],
         scalars = map (\<lambda>i. round_single (scalars pdi ! i * script_scale_data s))
                    [0..<numPoints],
         array_name = array_name pdi\<rparr>)"


datatype proxy_kind =
    Reader string
  | AVSUCDReader "string list"
  | ProgrammableFilter nat
  | Slice nat
  | Other string

record slice_type =
  type_name :: string
  Normal :: vec3
  Origin :: vec3

text \<open>
  A proxy: its registration name, what it is and what it reads from, the data it produces
  (\<open>None\<close> where the host has none, or where the geometry is the host's own work, as for
  the cut of a slice), and its properties and display state in the active view.
\<close>

record proxy =
  reg_name :: string
  kind :: proxy_kind
  fetched :: "mesh option"
  Script :: "filter_script option"
  SliceType :: "slice_type option"
  visible :: bool
  representation :: "string option"
  widgets3d :: bool
  color_by :: "string option"
  display_scale :: vec3

record host =
  files :: "string \<Rightarrow> mesh option"
  slice_defaults :: "nat \<Rightarrow> string \<Rightarrow> slice_type"
  empty_range :: "real \<times> real"
  proxies :: "(nat \<times> proxy) list"
  next_id :: nat
  render_view :: bool
  layout_size :: "(int \<times> int) option"
  lut_range :: "(string \<times> real \<times> real) list"
  pwf_range :: "(string \<times> real \<times> real) list"
  renders :: nat
  camera_resets :: nat
  screenshots :: "(string \<times> (int \<times> int) \<times> bool) list"

definition proxy_of :: "host \<Rightarrow> nat \<Rightarrow> proxy option" where
  "proxy_of h i = map_of (proxies h) i"

definition update_proxy :: "host \<Rightarrow> nat \<Rightarrow> (proxy \<Rightarrow> proxy) \<Rightarrow> host" where
  "update_proxy h i f =
     h\<lparr>proxies := map (\<lambda>(j, p). if j = i then (j, f p) else (j, p)) (proxies h)\<rparr>"

definition new_proxy :: "host \<Rightarrow> string \<Rightarrow> proxy_kind \<Rightarrow> mesh option \<Rightarrow> host \<times> nat" where
  "new_proxy h name k m =
     (h\<lparr>proxies := proxies h @
          [(next_id h,
            \<lparr>reg_name = name, kind = k, fetched = m, Script = None, SliceType = None,
             visible = False, representation = None, widgets3d = True, color_by = None,
             display_scale = (1, 1, 1)\<rparr>)],
        next_id := Suc (next_id h)\<rparr>,
      next_id h)"

definition GetActiveViewOrCreate :: "host \<Rightarrow> host" where
  "GetActiveViewOrCreate h = h\<lparr>render_view := True\<rparr>"

definition Render :: "host \<Rightarrow> host" where
  "Render h = h\<lparr>renders := Suc (renders h)\<rparr>"

definition ResetCamera :: "host \<Rightarrow> host" where
  "ResetCamera h = h\<lparr>camera_resets := Suc (camera_resets h)\<rparr>"

definition SetSize :: "host \<Rightarrow> int \<times> int \<Rightarrow> host" where
  "SetSize h wh = h\<lparr>layout_size := Some wh\<rparr>"

definition Show :: "host \<Rightarrow> nat \<Rightarrow> string option \<Rightarrow> host" where
  "Show h i rep =
     update_proxy h i
       (\<lambda>p. p\<lparr>visible := True,
              representation := (case rep of None \<Rightarrow> representation p | Some r \<Rightarrow> Some r)\<rparr>)"

definition Hide :: "host \<Rightarrow> nat \<Rightarrow> host" where
  "Hide h i = update_proxy h i (\<lambda>p. p\<lparr>visible := False\<rparr>)"

definition Hide3DWidgets :: "host \<Rightarrow> nat \<Rightarrow> host" where
  "Hide3DWidgets h i = update_proxy h i (\<lambda>p. p\<lparr>widgets3d := False\<rparr>)"

definition ColorBy :: "host \<Rightarrow> nat \<Rightarrow> string \<Rightarrow> host" where
  "ColorBy h i qty = update_proxy h i (\<lambda>p. p\<lparr>color_by := Some qty\<rparr>)"

definition SaveScreenshot :: "host \<Rightarrow> string \<Rightarrow> int \<times> int \<Rightarrow> bool \<Rightarrow> host" where
  "SaveScreenshot h path res transparent =
     h\<lparr>screenshots := screenshots h @ [(path, res, transparent)]\<rparr>"

text \<open>\<open>OpenDataFile\<close> raises when the host has no reader for the file.\<close>

definition OpenDataFile :: "host \<Rightarrow> string \<Rightarrow> py_error + host \<times> nat" where
  "OpenDataFile h path =
     (case files h path of
        None \<Rightarrow> Inl (RuntimeError path)
      | Some m \<Rightarrow> Inr (new_proxy h path (Reader path) (Some m)))"

text \<open>\<open>servermanager.Fetch\<close>: the data a proxy produces, brought to the client.\<close>

definition Fetch :: "host \<Rightarrow> nat \<Rightarrow> py_error + mesh" where
  "Fetch h i =
     (case proxy_of h i of
        None \<Rightarrow> Inl (RuntimeError ''no such proxy'')
      | Some p \<Rightarrow>
          (case fetched p of
             None \<Rightarrow> Inl (RuntimeError ''no data'')
           | Some m \<Rightarrow> Inr m))"


text \<open>A new filter proxy reading from \<open>input\<close>; it has no output before it has a script.\<close>

definition ProgrammableFilter_new :: "host \<Rightarrow> string \<Rightarrow> nat \<Rightarrow> host \<times> nat" where
  "ProgrammableFilter_new h name input = new_proxy h name (ProgrammableFilter input) None"

text \<open>Setting \<open>Script\<close>: the host runs the script on the data of the filter's input.\<close>

definition set_Script :: "host \<Rightarrow> nat \<Rightarrow> filter_script \<Rightarrow> host" where
  "set_Script h i s =
     update_proxy h i
       (\<lambda>p. p\<lparr>Script := Some s,
              fetched :=
                (case kind p of
                   ProgrammableFilter input \<Rightarrow>
                     (case proxy_of h input of
                        None \<Rightarrow> None
                      | Some q \<Rightarrow> map_option (run_script s) (fetched q))
                 | _ \<Rightarrow> fetched p)\<rparr>)"

text \<open>\<open>proxy.PointData.GetArray(0).Name\<close>; \<open>GetArray\<close> gives \<open>None\<close> when there is no array.\<close>

definition array0_name :: "host \<Rightarrow> nat \<Rightarrow> py_error + string" where
  "array0_name h i =
     (case proxy_of h i of
        None \<Rightarrow> Inl AttributeError
      | Some p \<Rightarrow>
          (case fetched p of
             None \<Rightarrow> Inl AttributeError
           | Some m \<Rightarrow> Inr (array_name m)))"

text \<open>
  \<open>proxy.PointData.GetArray(0).GetRange(0)\<close>: the least and the greatest value. The range
  the host reports for an array without values is a parameter of the host.
\<close>

definition array0_range :: "host \<Rightarrow> nat \<Rightarrow> py_error + real \<times> real" where
  "array0_range h i =
     (case proxy_of h i of
        None \<Rightarrow> Inl AttributeError
      | Some p \<Rightarrow>
          (case fetched p of
             None \<Rightarrow> Inl AttributeError
           | Some m \<Rightarrow>
               (case scalars m of
                  [] \<Rightarrow> Inr (empty_range h)
                | v # vs \<Rightarrow> Inr (fold min vs v, fold max vs v))))"

text \<open>
  A new slice filter on \<open>input\<close>, with the slice type the host gives it. Assigning
  \<open>SliceType = name\<close> installs a fresh slice-type object of that name with the host's
  values for it.
\<close>

definition Slice_new :: "host \<Rightarrow> nat \<Rightarrow> host \<times> nat" where
  "Slice_new h input =
     (case new_proxy h ''Slice'' (Slice input) None of
        (h1, i) \<Rightarrow>
          (update_proxy h1 i (\<lambda>p. p\<lparr>SliceType := Some (slice_defaults h input ''Plane'')\<rparr>), i))"

definition set_SliceType :: "host \<Rightarrow> nat \<Rightarrow> string \<Rightarrow> host" where
  "set_SliceType h i name =
     update_proxy h i
       (\<lambda>p. p\<lparr>SliceType :=
                (case kind p of
                   Slice input \<Rightarrow> Some ((slice_defaults h input name)\<lparr>type_name := name\<rparr>)
                 | _ \<Rightarrow> SliceType p)\<rparr>)"

definition set_Normal :: "host \<Rightarrow> nat \<Rightarrow> vec3 \<Rightarrow> host" where
  "set_Normal h i n =
     update_proxy h i (\<lambda>p. p\<lparr>SliceType := map_option (\<lambda>t. t\<lparr>Normal := n\<rparr>) (SliceType p)\<rparr>)"

definition set_Origin :: "host \<Rightarrow> nat \<Rightarrow> vec3 \<Rightarrow> host" where
  "set_Origin h i orig =
     update_proxy h i (\<lambda>p. p\<lparr>SliceType := map_option (\<lambda>t. t\<lparr>Origin := orig\<rparr>) (SliceType p)\<rparr>)"

definition get_Origin :: "host \<Rightarrow> nat \<Rightarrow> py_error + vec3" where
  "get_Origin h i =
     (case proxy_of h i of
        None \<Rightarrow> Inl AttributeError
      | Some p \<Rightarrow>
          (case SliceType p of
             None \<Rightarrow> Inl AttributeError
           | Some t \<Rightarrow> Inr (Origin t)))"

text \<open>
  \<open>AVSUCDReader(FileNames=[fid])\<close>: the reader proxy is made whether or not the file can
  be read.
\<close>

definition AVSUCDReader_new :: "host \<Rightarrow> string list \<Rightarrow> host \<times> nat" where
  "AVSUCDReader_new h fids =
     new_proxy h ''AVSUCDReader'' (AVSUCDReader fids)
       (case fids of [] \<Rightarrow> None | f # _ \<Rightarrow> files h f)"

text \<open>
  \<open>GetColorTransferFunction(name)\<close> and \<open>GetOpacityTransferFunction(name)\<close> hand out the
  transfer function kept under the array name; \<open>RescaleTransferFunction\<close> sets its range.
\<close>

definition rescale_lut :: "host \<Rightarrow> string \<Rightarrow> real \<Rightarrow> real \<Rightarrow> host" where
  "rescale_lut h name lo hi = h\<lparr>lut_range := AList.update name (lo, hi) (lut_range h)\<rparr>"

definition rescale_pwf :: "host \<Rightarrow> string \<Rightarrow> real \<Rightarrow> real \<Rightarrow> host" where
  "rescale_pwf h name lo hi = h\<lparr>pwf_range := AList.update name (lo, hi) (pwf_range h)\<rparr>"

definition set_display_scale :: "host \<Rightarrow> nat \<Rightarrow> vec3 \<Rightarrow> host" where
  "set_display_scale h i s = update_proxy h i (\<lambda>p. p\<lparr>display_scale := s\<rparr>)"

text \<open>
  \<open>GetSources()\<close> returns a Python \<open>dict\<close> from \<open>(registration name, id)\<close> to the proxy.
  \<open>FindSource(name)\<close> is the first live proxy registered under the name, \<open>Delete\<close>
  removes a proxy from the registry.
\<close>

definition GetSources :: "host \<Rightarrow> ((string \<times> nat) \<times> nat) list" where
  "GetSources h = map (\<lambda>(i, p). ((reg_name p, i), i)) (proxies h)"

definition FindSource :: "host \<Rightarrow> string \<Rightarrow> nat option" where
  "FindSource h name = map_option fst (find (\<lambda>(i, p). reg_name p = name) (proxies h))"

definition Delete :: "host \<Rightarrow> nat option \<Rightarrow> host" where
  "Delete h src =
     (case src of
        None \<Rightarrow> h
      | Some i \<Rightarrow> h\<lparr>proxies := filter (\<lambda>(j, p). j \<noteq> i) (proxies h)\<rparr>)"

section \<open>Python objects that a loop can be asked to iterate\<close>

text \<open>
  \<open>d.keys\<close> without a call is the bound method, \<open>d.keys()\<close> is the view of the keys.
  Iterating a dictionary or a list gives its keys or items; iterating a bound method raises
  \<open>TypeError\<close> (\<open>'builtin_function_or_method' object is not iterable\<close>).
\<close>

datatype ('k, 'v) py_object =
    PyDict "('k \<times> 'v) list"
  | PyList "'k list"
  | PyMethod_keys "('k \<times> 'v) list"

definition attr_keys :: "('k \<times> 'v) list \<Rightarrow> ('k, 'v) py_object" where
  "attr_keys d = PyMethod_keys d"

fun py_call :: "('k, 'v) py_object \<Rightarrow> py_error + ('k, 'v) py_object" where
  "py_call (PyMethod_keys d) = Inr (PyList (map fst d))"
| "py_call _ = Inl TypeError"

fun py_iter :: "('k, 'v) py_object \<Rightarrow> py_error + 'k list" where
  "py_iter (PyDict d) = Inr (map fst d)"
| "py_iter (PyList xs) = Inr xs"
| "py_iter (PyMethod_keys d) = Inl TypeError"

text \<open>\<open>name in src\<close> on strings: \<open>name\<close> occurs in \<open>src\<close> as a contiguous substring.\<close>

fun py_in :: "string \<Rightarrow> string \<Rightarrow> bool" where
  "py_in name [] = (name = [])"
| "py_in name (c # cs) = (take (length name) (c # cs) = name \<or> py_in name cs)"

section \<open>things.py\<close>

text \<open>
  \<^verbatim>\<open>
  def programmable_filter(data, script, reg_name="ProgrammableFilter"):
      renderView = GetActiveViewOrCreate("RenderView")
      Show(data)
      prog_filter = ProgrammableFilter(registrationName=reg_name, Input=data)
      prog_filter.Script = script
      qty = prog_filter.PointData.GetArray(0).Name
      progfiltDisplay = Show(prog_filter, GetActiveView(), "UnstructuredGridRepresentation")
      ColorBy(progfiltDisplay, qty)
      Hide(data)
      Hide(prog_filter)
      return prog_filter
  \<close>
\<close>

definition programmable_filter ::
  "host \<Rightarrow> nat \<Rightarrow> filter_script \<Rightarrow> string \<Rightarrow> py_error + host \<times> nat" where
  "programmable_filter h data script name =
     (let h1 = GetActiveViewOrCreate h;
          h2 = Show h1 data None
      in case ProgrammableFilter_new h2 name data of
           (h3, prog_filter) \<Rightarrow>
             (let h4 = set_Script h3 prog_filter script
              in case array0_name h4 prog_filter of
                   Inl e \<Rightarrow> Inl e
                 | Inr qty \<Rightarrow>
                     (let h5 = Show h4 prog_filter (Some ''UnstructuredGridRepresentation'');
                          h6 = ColorBy h5 prog_filter qty;
                          h7 = Hide h6 data;
                          h8 = Hide h7 prog_filter
                      in Inr (h8, prog_filter))))"

section \<open>utils.py: scale_input\<close>

text \<open>
  \<^verbatim>\<open>
  def scale_input(data, scale_data=None, scale_coords=None, zero_origin=False):
      if scale_data is None:
          scale_data = 1
      if scale_coords is None:
          scale_coords = 1
      script = f"""..."""
      return programmable_filter(data, script)
  \<close>
\<close>

definition scale_script :: "real option \<Rightarrow> real option \<Rightarrow> bool \<Rightarrow> filter_script" where
  "scale_script scale_data scale_coords zero_origin =
     (let scale_data = (case scale_data of None \<Rightarrow> 1 | Some v \<Rightarrow> v);
          scale_coords = (case scale_coords of None \<Rightarrow> 1 | Some v \<Rightarrow> v)
      in \<lparr>script_zero_origin = zero_origin,
          script_scale_coords = scale_coords,
          script_scale_data = scale_data\<rparr>)"

definition scale_input ::
  "host \<Rightarrow> nat \<Rightarrow> real option \<Rightarrow> real option \<Rightarrow> bool \<Rightarrow> py_error + host \<times> nat" where
  "scale_input h data scale_data scale_coords zero_origin =
     programmable_filter h data (scale_script scale_data scale_coords zero_origin)
       ''ProgrammableFilter''"

section \<open>actions.py\<close>

text \<open>
  \<^verbatim>\<open>
  def screenshot(fid, resolution, transparent_bg=True):
      SaveScreenshot(fid, GetActiveView(), ImageResolution=resolution,
                     TransparentBackground=transparent_bg)
  \<close>
\<close>

definition screenshot :: "host \<Rightarrow> string \<Rightarrow> int \<times> int \<Rightarrow> bool \<Rightarrow> host" where
  "screenshot h path res transparent_bg = SaveScreenshot h path res transparent_bg"

text \<open>
  \<^verbatim>\<open>
  def delete_objects(names=None):
      if names is None:
          names = ["ruler", "point", "glyph"]
      for src in [_[0] for _ in GetSources().keys]:
          for name in names:
              if name in src:
                  src = FindSource(src)
                  Delete(src)
                  break
  \<close>
  The list comprehension iterates \<open>GetSources().keys\<close>, the attribute, not the result of
  calling it.
\<close>

definition delete_matching :: "string list \<Rightarrow> string \<Rightarrow> host \<Rightarrow> host" where
  "delete_matching names src h =
     (case find (\<lambda>name. py_in name src) names of
        None \<Rightarrow> h
      | Some _ \<Rightarrow> Delete h (FindSource h src))"

definition delete_objects :: "host \<Rightarrow> string list option \<Rightarrow> py_error + host" where
  "delete_objects h names =
     (let names = (case names of None \<Rightarrow> [''ruler'', ''point'', ''glyph''] | Some ns \<Rightarrow> ns)
      in case py_iter (attr_keys (GetSources h)) of
           Inl e \<Rightarrow> Inl e
         | Inr ks \<Rightarrow> Inr (fold (delete_matching names) (map fst ks) h))"


section \<open>datafile.py\<close>

text \<open>
  An opened data file: the handle of the data source, the cached coordinates per axis, the
  cached range of the scalar values, and the handle of its display.
\<close>

record cdf =
  cdf_fid :: string
  data :: nat
  data_coords :: "real list \<times> real list \<times> real list"
  data_bounds :: "real \<times> real"
  display :: nat

text \<open>
  \<^verbatim>\<open>
  def _get_coordinates(self, input=None):
      if input is None:
          input = self.data
      data_plane = servermanager.Fetch(input)
      x, y, z = [], [], []
      for i in range(data_plane.GetNumberOfPoints()):
          x_, y_, z_ = data_plane.GetPoint(i)
          x.append(x_); y.append(y_); z.append(z_)
      return x, y, z
  \<close>
\<close>

definition get_coordinates ::
  "host \<Rightarrow> nat \<Rightarrow> nat option \<Rightarrow> py_error + real list \<times> real list \<times> real list" where
  "get_coordinates h self_data inp =
     (let input = (case inp of None \<Rightarrow> self_data | Some i \<Rightarrow> i)
      in case Fetch h input of
           Inl e \<Rightarrow> Inl e
         | Inr data_plane \<Rightarrow>
             Inr (fold (\<lambda>i (x, y, z).
                          case points data_plane ! i of
                            (x', y', z') \<Rightarrow> (x @ [x'], y @ [y'], z @ [z']))
                    [0..<length (points data_plane)] ([], [], [])))"

text \<open>
  \<^verbatim>\<open>
  def _get_data_minmax(self, input=None):
      if input is None:
          input = self.data
      vmin, vmax = input.PointData.GetArray(0).GetRange(0)
      return vmin, vmax
  \<close>
\<close>

definition get_data_minmax ::
  "host \<Rightarrow> nat \<Rightarrow> nat option \<Rightarrow> py_error + real \<times> real" where
  "get_data_minmax h self_data inp =
     (let input = (case inp of None \<Rightarrow> self_data | Some i \<Rightarrow> i)
      in array0_range h input)"

text \<open>
  \<^verbatim>\<open>
  def __init__(self, fid, scale_data=None, scale_coords=None, zero_origin=False):
      self.fid = fid
      self.data = OpenDataFile(fid)
      if scale_data or scale_coords:
          self.data = scale_input(data=self.data, scale_data=scale_data,
                                  scale_coords=scale_coords, zero_origin=zero_origin)
      self.data_coords = self._get_coordinates()
      self.data_bounds = self._get_data_minmax()
      self.display = Show(self.data, GetActiveView(), "UnstructuredGridRepresentation")
  \<close>
  The two steps are kept apart: opening with the scaling filter step, then the caches and
  the display.
\<close>

definition open_and_scale ::
  "host \<Rightarrow> string \<Rightarrow> real option \<Rightarrow> real option \<Rightarrow> bool \<Rightarrow> py_error + host \<times> nat" where
  "open_and_scale h path scale_data scale_coords zero_origin =
     (case OpenDataFile h path of
        Inl e \<Rightarrow> Inl e
      | Inr (h1, d) \<Rightarrow>
          (if truthy scale_data \<or> truthy scale_coords
           then scale_input h1 d scale_data scale_coords zero_origin
           else Inr (h1, d)))"

definition CartesianDataFile ::
  "host \<Rightarrow> string \<Rightarrow> real option \<Rightarrow> real option \<Rightarrow> bool \<Rightarrow> py_error + host \<times> cdf" where
  "CartesianDataFile h path scale_data scale_coords zero_origin =
     (case open_and_scale h path scale_data scale_coords zero_origin of
        Inl e \<Rightarrow> Inl e
      | Inr (h2, d) \<Rightarrow>
          (case get_coordinates h2 d None of
             Inl e \<Rightarrow> Inl e
           | Inr coords \<Rightarrow>
               (case get_data_minmax h2 d None of
                  Inl e \<Rightarrow> Inl e
                | Inr bounds \<Rightarrow>
                    Inr (Show h2 d (Some ''UnstructuredGridRepresentation''),
                         \<lparr>cdf_fid = path, data = d, data_coords = coords,
                          data_bounds = bounds, display = d\<rparr>))))"

text \<open>Python's \<open>min\<close> and \<open>max\<close> of a list raise \<open>ValueError\<close> on the empty list.\<close>

definition py_min :: "real list \<Rightarrow> py_error + real" where
  "py_min xs = (case xs of [] \<Rightarrow> Inl ValueError | x # r \<Rightarrow> Inr (fold min r x))"

definition py_max :: "real list \<Rightarrow> py_error + real" where
  "py_max xs = (case xs of [] \<Rightarrow> Inl ValueError | x # r \<Rightarrow> Inr (fold max r x))"

text \<open>
  The methods take the object and return it next to their result, so that what they do
  to its attributes is part of the model.
  \<^verbatim>\<open>
  @property
  def stats(self):
      for i, coord in enumerate(self.data_coords):
          print(f"{i} [min, max, n]: {min(coord)}, {max(coord)}, {len(coord)}")
      print(f"vals: {self.data_bounds} ")
  \<close>
  The result is what is printed: one line of values per axis, then the range.
\<close>

fun stats_lines :: "nat \<Rightarrow> real list list \<Rightarrow> py_error + (nat \<times> real \<times> real \<times> nat) list" where
  "stats_lines i [] = Inr []"
| "stats_lines i (coord # rest) =
     (case py_min coord of
        Inl e \<Rightarrow> Inl e
      | Inr lo \<Rightarrow>
          (case py_max coord of
             Inl e \<Rightarrow> Inl e
           | Inr hi \<Rightarrow>
               (case stats_lines (Suc i) rest of
                  Inl e \<Rightarrow> Inl e
                | Inr ls \<Rightarrow> Inr ((i, lo, hi, length coord) # ls))))"

definition stats ::
  "cdf \<Rightarrow> (py_error + (nat \<times> real \<times> real \<times> nat) list \<times> (real \<times> real)) \<times> cdf" where
  "stats self =
     (case data_coords self of
        (x, y, z) \<Rightarrow>
          (case stats_lines 0 [x, y, z] of
             Inl e \<Rightarrow> (Inl e, self)
           | Inr ls \<Rightarrow> (Inr (ls, data_bounds self), self)))"

text \<open>
  \<^verbatim>\<open>
  @property
  def center(self):
      mids = []
      for coord in self.data_coords:
          mids.append((max(coord) + min(coord)) / 2)
      return mids
  \<close>
\<close>

fun center_mids :: "real list list \<Rightarrow> py_error + real list" where
  "center_mids [] = Inr []"
| "center_mids (coord # rest) =
     (case py_max coord of
        Inl e \<Rightarrow> Inl e
      | Inr hi \<Rightarrow>
          (case py_min coord of
             Inl e \<Rightarrow> Inl e
           | Inr lo \<Rightarrow>
               (case center_mids rest of
                  Inl e \<Rightarrow> Inl e
                | Inr ms \<Rightarrow> Inr ((hi + lo) / 2 # ms))))"

definition center :: "cdf \<Rightarrow> (py_error + real list) \<times> cdf" where
  "center self = (case data_coords self of (x, y, z) \<Rightarrow> (center_mids [x, y, z], self))"

text \<open>
  \<^verbatim>\<open>
  def depth_slice(self, depth, hide_original=True):
      sliced_plane = Slice(self.data)
      sliced_plane.SliceType = "Plane"
      sliced_plane.SliceType.Normal = [0., 0., 1.]
      _origin = sliced_plane.SliceType.Origin
      _origin = [_origin[0], _origin[1], depth]
      sliced_plane.SliceType.Origin = _origin
      Hide3DWidgets(proxy=sliced_plane)
      Show(sliced_plane)
      if hide_original:
          Hide(self.data)
      return sliced_plane
  \<close>
\<close>

definition depth_slice :: "cdf \<Rightarrow> host \<Rightarrow> real \<Rightarrow> bool \<Rightarrow> py_error + nat \<times> cdf \<times> host" where
  "depth_slice self h depth hide_original =
     (case Slice_new h (data self) of
        (h1, sliced_plane) \<Rightarrow>
          (let h2 = set_SliceType h1 sliced_plane ''Plane'';
               h3 = set_Normal h2 sliced_plane (0, 0, 1)
           in case get_Origin h3 sliced_plane of
                Inl e \<Rightarrow> Inl e
              | Inr origin0 \<Rightarrow>
                  (let origin1 = (fst origin0, fst (snd origin0), depth);
                       h4 = set_Origin h3 sliced_plane origin1;
                       h5 = Hide3DWidgets h4 sliced_plane;
                       h6 = Show h5 sliced_plane None;
                       h7 = (if hide_original then Hide h6 (data self) else h6)
                   in Inr (sliced_plane, self, h7))))"

text \<open>
  \<^verbatim>\<open>
  class SurfaceMovie():
      def __init__(self, fid, quantity="a"):
          self.data = AVSUCDReader(FileNames=[fid])
          self.display = Show(self.data, GetActiveView(), "UnstructuredGridRepresentation")
          self.lut = GetColorTransferFunction(quantity)
          self.pwf = GetOpacityTransferFunction(quantity)
  \<close>
\<close>

record surface_movie =
  mov_data :: nat
  mov_display :: nat
  lut :: string
  pwf :: string

definition SurfaceMovie :: "host \<Rightarrow> string \<Rightarrow> string \<Rightarrow> host \<times> surface_movie" where
  "SurfaceMovie h path quantity =
     (case AVSUCDReader_new h [path] of
        (h1, d) \<Rightarrow>
          (Show h1 d (Some ''UnstructuredGridRepresentation''),
           \<lparr>mov_data = d, mov_display = d, lut = quantity, pwf = quantity\<rparr>))"


section \<open>main.py\<close>

text \<open>
  The world outside the host: which paths exist, whether \<open>os.mkdir\<close> fails on a path
  (and with what), the other spellings under which a path names the same entry (\<open>out\<close>
  for \<open>out/\<close>), what importing the configuration module named by a path gives, and
  what \<open>glob\<close> matches. A directory that \<open>os.mkdir\<close> makes exists under all its spellings.
\<close>

record config =
  resolution :: "int \<times> int"
  scale_data :: "real option"
  scale_coords :: "real option"
  zero_origin :: bool
  mov_bounds :: "real \<times> real"
  mov_scale :: real

record world =
  existing :: "string list"
  mkdir_error :: "string \<Rightarrow> py_error option"
  spellings :: "string \<Rightarrow> string list"
  import_config :: "string \<Rightarrow> py_error + config"
  glob :: "string \<Rightarrow> string list"

definition path_exists :: "world \<Rightarrow> string \<Rightarrow> bool" where
  "path_exists w p = (p \<in> set (existing w))"

definition mkdir :: "world \<Rightarrow> string \<Rightarrow> py_error + world" where
  "mkdir w p =
     (case mkdir_error w p of
        Some e \<Rightarrow> Inl e
      | None \<Rightarrow> Inr (w\<lparr>existing := p # spellings w p @ existing w\<rparr>))"

text \<open>
  \<open>os.path.join a b\<close> on two components: an absolute \<open>b\<close> replaces \<open>a\<close>; otherwise the
  two are joined by one separator unless \<open>a\<close> is empty or ends with one.
\<close>

definition path_join :: "string \<Rightarrow> string \<Rightarrow> string" where
  "path_join a b =
     (if take 1 b = ''/'' then b
      else if a = [] \<or> last a = CHR ''/'' then a @ b
      else a @ ''/'' @ b)"

text \<open>The namespace that \<open>argparse\<close> returns.\<close>

record args =
  fid :: string
  cfg_fid :: string
  movie :: bool
  verbose :: bool
  output_dir :: string
  fid_out :: "string option"

text \<open>
  \<^verbatim>\<open>
  def check(args):
      if not args.movie:
          assert(os.path.exists(args.fid)), f"{args.fid} does not exist"
      if not os.path.exists(args.output):
          os.mkdir(args.output)
      if args.fid_out is None:
          args.fid_out = args.fid + ".png"
      return args
  \<close>
\<close>

definition check :: "world \<Rightarrow> args \<Rightarrow> py_error + world \<times> args" where
  "check w a =
     (if \<not> movie a \<and> \<not> path_exists w (fid a)
      then Inl (AssertionError (fid a @ '' does not exist''))
      else case (if \<not> path_exists w (output_dir a) then mkdir w (output_dir a) else Inr w) of
             Inl e \<Rightarrow> Inl e
           | Inr w1 \<Rightarrow>
               Inr (w1, if fid_out a = None then a\<lparr>fid_out := Some (fid a @ ''.png'')\<rparr>
                        else a))"

text \<open>\<open>parse_args\<close> hands the parsed namespace to \<open>check\<close>.\<close>

definition parse_args :: "world \<Rightarrow> args \<Rightarrow> py_error + world \<times> args" where
  "parse_args w parsed = check w parsed"

text \<open>
  \<^verbatim>\<open>
  def setup(cfg_fid="config.py"):
      assert(os.path.exists(cfg_fid)), \
          f"PyrateView requires a valid .py configuration file: {cfg_fid}"
      cfg = importlib.import_module(os.path.splitext(cfg_fid)[0])
      GetActiveViewOrCreate("RenderView")
      Render()
      layout = GetLayout()
      layout.SetSize(cfg.resolution[0], cfg.resolution[1])
      return cfg
  \<close>
\<close>

definition setup_main :: "world \<Rightarrow> host \<Rightarrow> string \<Rightarrow> py_error + host \<times> config" where
  "setup_main w h cfg_path =
     (if \<not> path_exists w cfg_path
      then Inl (AssertionError
                 (''PyrateView requires a valid .py configuration file: '' @ cfg_path))
      else case import_config w cfg_path of
             Inl e \<Rightarrow> Inl e
           | Inr cfg \<Rightarrow>
               Inr (SetSize (Render (GetActiveViewOrCreate h)) (resolution cfg), cfg))"

text \<open>
  \<^verbatim>\<open>
  def movie_frame():
      for fid in sorted(glob(args.fid)):
          mov = SurfaceMovie(fid)
          mov.lut.RescaleTransferFunction(cfg.mov_bounds[0], cfg.mov_bounds[1])
          mov.pwf.RescaleTransferFunction(cfg.mov_bounds[0], cfg.mov_bounds[1])
          mov.display.Scale = [1., 1., cfg.mov_scale]
          ResetCamera()
          screenshot(fid=os.path.join(args.output, fid + ".png"),
                     resolution=cfg.resolution)
  \<close>
  The messages printed under \<open>verbose\<close> are left out.
\<close>

definition movie_frame_step :: "args \<Rightarrow> config \<Rightarrow> string \<Rightarrow> host \<Rightarrow> host" where
  "movie_frame_step a cfg path h =
     (case SurfaceMovie h path ''a'' of
        (h1, mov) \<Rightarrow>
          (let h2 = rescale_lut h1 (lut mov) (fst (mov_bounds cfg)) (snd (mov_bounds cfg));
               h3 = rescale_pwf h2 (pwf mov) (fst (mov_bounds cfg)) (snd (mov_bounds cfg));
               h4 = set_display_scale h3 (mov_display mov) (1, 1, mov_scale cfg);
               h5 = ResetCamera h4
           in screenshot h5 (path_join (output_dir a) (path @ ''.png'')) (resolution cfg) True))"

definition movie_frame :: "world \<Rightarrow> args \<Rightarrow> config \<Rightarrow> host \<Rightarrow> host" where
  "movie_frame w a cfg h = fold (movie_frame_step a cfg) (sort (glob w (fid a))) h"

text \<open>
  \<^verbatim>\<open>
  def cartesian():
      cdf = CartesianDataFile(args.fid, scale_data=cfg.scale_data,
                              scale_coords=cfg.scale_coords, zero_origin=cfg.zero_origin)
      zslice = cdf.depth_slice(depth=-5)
      lut = colormap(cdf.data, ...)
      cbar = colorbar(lut, ...)
      xm, ym, _ = cdf.center
      ResetCamera()
      screenshot(fid=os.path.join(args.output, args.fid_out), resolution=cfg.resolution)
  \<close>
  The module \<open>colorstuff\<close> with \<open>colormap\<close> and \<open>colorbar\<close> is not among the sources; what
  the two calls do to the host is the parameter \<open>colors\<close>.
\<close>

definition cartesian ::
  "(host \<Rightarrow> nat \<Rightarrow> config \<Rightarrow> py_error + host) \<Rightarrow> args \<Rightarrow> config \<Rightarrow> host \<Rightarrow> py_error + host" where
  "cartesian colors a cfg h =
     (case CartesianDataFile h (fid a) (scale_data cfg) (scale_coords cfg) (zero_origin cfg) of
        Inl e \<Rightarrow> Inl e
      | Inr (h1, c) \<Rightarrow>
          (case depth_slice c h1 (- 5) True of
             Inl e \<Rightarrow> Inl e
           | Inr (zslice, c1, h2) \<Rightarrow>
               (case colors h2 (data c1) cfg of
                  Inl e \<Rightarrow> Inl e
                | Inr h3 \<Rightarrow>
                    (case center c1 of
                       (Inl e, _) \<Rightarrow> Inl e
                     | (Inr mids, c2) \<Rightarrow>
                         (case fid_out a of
                            None \<Rightarrow> Inl TypeError
                          | Some name \<Rightarrow>
                              Inr (screenshot (ResetCamera h3) (path_join (output_dir a) name)
                                     (resolution cfg) True))))))"

text \<open>
  \<^verbatim>\<open>
  if __name__ == "__main__":
      args = parse_args()
      cfg = setup(cfg_fid=args.cfg_fid)
      movie_frame()
  \<close>
  A run either aborts with an exception or finishes; both leave the world and the host in
  some state. \<open>check\<close> and \<open>setup\<close> raise before they change anything.
\<close>

datatype outcome = Aborted py_error world host | Finished world host

definition main :: "world \<Rightarrow> host \<Rightarrow> args \<Rightarrow> outcome" where
  "main w h parsed =
     (case parse_args w parsed of
        Inl e \<Rightarrow> Aborted e w h
      | Inr (w1, a) \<Rightarrow>
          (case setup_main w1 h (cfg_fid a) of
             Inl e \<Rightarrow> Aborted e w1 h
           | Inr (h1, cfg) \<Rightarrow> Finished w1 (movie_frame w1 a cfg h1)))"

text \<open>The start of a run: everything before the first routine that plots.\<close>

definition startup :: "world \<Rightarrow> host \<Rightarrow> args \<Rightarrow> py_error + world \<times> host \<times> args \<times> config" where
  "startup w h parsed =
     (case parse_args w parsed of
        Inl e \<Rightarrow> Inl e
      | Inr (w1, a) \<Rightarrow>
          (case setup_main w1 h (cfg_fid a) of
             Inl e \<Rightarrow> Inl e
           | Inr (h1, cfg) \<Rightarrow> Inr (w1, h1, a, cfg)))"

section \<open>Well-formed hosts and example states\<close>

text \<open>
  The host hands out fresh identifiers: every live proxy has an identifier below the next
  one to be given.
\<close>

definition host_ok :: "host \<Rightarrow> bool" where
  "host_ok h = list_all (\<lambda>(i, p). i < next_id h) (proxies h)"

text \<open>Example states: a host that can read one file, and the same host with the file open.\<close>

definition mesh0 :: mesh where
  "mesh0 = \<lparr>points = [(10, 20, 30), (12, 26, 34)], scalars = [1000, 3000], array_name = ''vs''\<rparr>"


definition host0 :: host where
  "host0 =
     \<lparr>files = (\<lambda>p. if p = ''model.vtk'' then Some mesh0 else None),
      slice_defaults = (\<lambda>i n. \<lparr>type_name = n, Normal = (1, 0, 0), Origin = (11, 23, 32)\<rparr>),
      empty_range = (0, 0),
      proxies = [], next_id = 0, render_view = False, layout_size = None,
      lut_range = [], pwf_range = [], renders = 0, camera_resets = 0, screenshots = []\<rparr>"

definition source0 :: proxy where
  "source0 =
     \<lparr>reg_name = ''model.vtk'', kind = Reader ''model.vtk'', fetched = Some mesh0,
      Script = None, SliceType = None, visible = False, representation = None,
      widgets3d = True, color_by = None, display_scale = (1, 1, 1)\<rparr>"

definition host1 :: host where
  "host1 = host0\<lparr>proxies := [(0, source0)], next_id := 1\<rparr>"

text \<open>The host with the file open and a ruler registered as \<open>ruler_1\<close>.\<close>

definition host_ruler :: host where
  "host_ruler =
     host0\<lparr>proxies := [(0, source0), (1, source0\<lparr>reg_name := ''ruler_1'', kind := Other ''Ruler'',
                                                fetched := None\<rparr>)],
           next_id := 2\<rparr>"

text \<open>The file opened without scaling, and the host after that.\<close>

definition cdf0 :: cdf where
  "cdf0 =
     \<lparr>cdf_fid = ''model.vtk'', data = 0,
      data_coords = ([10, 12], [20, 26], [30, 34]),
      data_bounds = (1000, 3000), display = 0\<rparr>"

definition host2 :: host where
  "host2 =
     host0\<lparr>proxies :=
              [(0, source0\<lparr>visible := True,
                          representation := Some ''UnstructuredGridRepresentation''\<rparr>)],
           next_id := 1\<rparr>"

text \<open>The hosts after a first depth slice that hides the data, and after a second one.\<close>

definition slice_at :: "real \<Rightarrow> proxy" where
  "slice_at depth =
     \<lparr>reg_name = ''Slice'', kind = Slice 0, fetched = None, Script = None,
      SliceType = Some \<lparr>type_name = ''Plane'', Normal = (0, 0, 1), Origin = (11, 23, depth)\<rparr>,
      visible = True, representation = None, widgets3d = False, color_by = None,
      display_scale = (1, 1, 1)\<rparr>"

definition host3 :: host where
  "host3 =
     host0\<lparr>proxies :=
              [(0, source0\<lparr>visible := False,
                          representation := Some ''UnstructuredGridRepresentation''\<rparr>),
               (1, slice_at (- 5))],
           next_id := 2\<rparr>"

definition host4 :: host where
  "host4 =
     host0\<lparr>proxies :=
              [(0, source0\<lparr>visible := False,
                          representation := Some ''UnstructuredGridRepresentation''\<rparr>),
               (1, slice_at (- 5)), (2, slice_at (- 10))],
           next_id := 3\<rparr>"

text \<open>
  Example runs: a world with a model file, a configuration file and the output directory;
  the namespaces of a run without and with the movie option; the host after \<open>setup\<close>;
  colour routines that do nothing; worlds that lack the model file or the configuration.
\<close>

definition config0 :: config where
  "config0 =
     \<lparr>resolution = (2100, 2100), scale_data = Some (1 / 1000), scale_coords = Some (1 / 1000),
      zero_origin = False, mov_bounds = (- (1 / 10000), 1 / 10000), mov_scale = 4\<rparr>"

definition world0 :: world where
  "world0 =
     \<lparr>existing = [''model.vtk'', ''config.py'', ''out'', ''frames/a.inp''],
      mkdir_error = (\<lambda>p. None),
      spellings = (\<lambda>p. []),
      import_config = (\<lambda>p. if p = ''config.py'' then Inr config0 else Inl (ImportError p)),
      glob = (\<lambda>pat. if pat = ''model.vtk'' then [''model.vtk'']
                   else if pat = ''frames/*.inp'' then [''frames/a.inp''] else [])\<rparr>"

definition args0 :: args where
  "args0 =
     \<lparr>fid = ''model.vtk'', cfg_fid = ''config.py'', movie = False, verbose = False,
      output_dir = ''out'', fid_out = None\<rparr>"

definition args_movie :: args where
  "args_movie =
     \<lparr>fid = ''frames/*.inp'', cfg_fid = ''config.py'', movie = True, verbose = False,
      output_dir = ''out'', fid_out = Some ''frame.png''\<rparr>"

definition host_setup :: host where
  "host_setup = host0\<lparr>render_view := True, renders := 1, layout_size := Some (2100, 2100)\<rparr>"

definition args1 :: args where
  "args1 = args0\<lparr>fid_out := Some ''model.vtk.png''\<rparr>"

definition no_colors :: "host \<Rightarrow> nat \<Rightarrow> config \<Rightarrow> py_error + host" where
  "no_colors h d cfg = Inr h"

definition world_bare :: world where
  "world_bare = world0\<lparr>existing := [''out''], glob := (\<lambda>pat. [])\<rparr>"

definition world_nocfg :: world where
  "world_nocfg = world0\<lparr>existing := [''model.vtk'', ''out'']\<rparr>"

definition host_movie :: host where
  "host_movie = movie_frame world0 args_movie config0 host_setup"

section \<open>Properties of the numeric utilities\<close>


lemma py_round_of_int [simp]: "py_round (of_int m) = m"
  by (simp add: py_round_def)

lemma py_round_numeral [simp]:
  "py_round (numeral n) = numeral n" "py_round 0 = 0" "py_round 1 = 1"
  using py_round_of_int [of "numeral n"] py_round_of_int [of 0] py_round_of_int [of 1]
  by simp_all




subsection \<open>Rounding to a floating-point format\<close>

lemma round_float_exponent:
  assumes "2 powr of_int e \<le> \<bar>x\<bar>" and "\<bar>x\<bar> < 2 powr (of_int e + 1)" and "emin \<le> e"
  shows "round_float p emin x =
           of_int (py_round (x / 2 powr (of_int e - of_nat (p - 1))))
             * 2 powr (of_int e - of_nat (p - 1))"
proof -
  have "(0 :: real) < 2 powr of_int e" by simp
  then have pos: "0 < \<bar>x\<bar>" using assms(1) by linarith
  then have nz: "x \<noteq> 0" by simp
  have "\<lfloor>log 2 \<bar>x\<bar>\<rfloor> = e"
    using floor_log_eq_powr_iff [of "\<bar>x\<bar>" 2 e] pos assms(1,2) by simp
  then show ?thesis using nz assms(3) by (simp add: round_float_def Let_def max_def)
qed

lemma two_powr_nat: "(2 :: real) powr of_int (int n) = 2 ^ n"
  by (simp add: powr_realpow)

lemma two_powr_Suc: "(2 :: real) powr (of_int (int n) + 1) = 2 ^ Suc n"
proof -
  have "real_of_int (int n) + 1 = real (Suc n)" by simp
  then have "(2 :: real) powr (of_int (int n) + 1) = 2 powr real (Suc n)" by presburger
  also have "\<dots> = 2 ^ Suc n" by (rule powr_realpow) simp
  finally show ?thesis .
qed

lemma round_float_nat_exponent:
  assumes "2 ^ n \<le> \<bar>x\<bar>" and "\<bar>x\<bar> < 2 ^ Suc n" and "emin \<le> 0" and "n \<le> p - 1"
  shows "round_float p emin x = of_int (py_round (x * 2 ^ (p - 1 - n))) / 2 ^ (p - 1 - n)"
proof -
  have a: "2 powr of_int (int n) \<le> \<bar>x\<bar>" using assms(1) by (simp only: two_powr_nat)
  have b: "\<bar>x\<bar> < 2 powr (of_int (int n) + 1)" using assms(2) by (simp only: two_powr_Suc)
  have c: "emin \<le> int n" using assms(3) by simp
  have "real_of_int (int n) - real (p - 1) = - real (p - 1 - n)"
    using assms(4) by simp
  then have "(2 :: real) powr (of_int (int n) - of_nat (p - 1)) = 2 powr (- real (p - 1 - n))"
    by presburger
  also have "\<dots> = 1 / 2 powr real (p - 1 - n)" by (rule powr_minus_divide)
  also have "\<dots> = 1 / 2 ^ (p - 1 - n)" by (simp only: powr_realpow zero_less_numeral)
  finally have u: "(2 :: real) powr (of_int (int n) - of_nat (p - 1)) = 1 / 2 ^ (p - 1 - n)" .
  show ?thesis
    unfolding round_float_exponent [OF a b c] u by simp
qed


lemma int_power_interval:
  assumes "k \<noteq> 0"
  shows "\<exists>n. (2 :: real) ^ n \<le> \<bar>of_int k\<bar> \<and> \<bar>real_of_int k\<bar> < 2 ^ Suc n"
proof -
  have "1 \<le> nat \<bar>k\<bar>" using assms by simp
  from ex_power_ivl1 [OF _ this, of 2]
  obtain n where n: "2 ^ n \<le> nat \<bar>k\<bar>" "nat \<bar>k\<bar> < 2 ^ (n + 1)" by auto
  have lo: "(2 :: int) ^ n \<le> \<bar>k\<bar>" using n(1) by (simp add: le_nat_iff)
  have hi: "\<bar>k\<bar> < (2 :: int) ^ Suc n" using n(2) by (simp add: nat_less_iff)
  have a: "(2 :: real) ^ n \<le> \<bar>of_int k\<bar>"
  proof -
    have "real_of_int (2 ^ n) \<le> real_of_int \<bar>k\<bar>" using lo by (simp only: of_int_le_iff)
    then show ?thesis by simp
  qed
  have b: "\<bar>real_of_int k\<bar> < 2 ^ Suc n"
  proof -
    have "real_of_int \<bar>k\<bar> < real_of_int (2 ^ Suc n)" using hi by (simp only: of_int_less_iff)
    then show ?thesis by simp
  qed
  show ?thesis using a b by blast
qed

lemma round_float_of_int:
  assumes "\<bar>k\<bar> < 2 ^ p" and "emin \<le> 0"
  shows "round_float p emin (of_int k) = of_int k"
proof (cases "k = 0")
  case True
  then show ?thesis by (simp add: round_float_def)
next
  case False
  from int_power_interval [OF False]
  obtain n where a: "(2 :: real) ^ n \<le> \<bar>of_int k\<bar>" and b: "\<bar>real_of_int k\<bar> < 2 ^ Suc n"
    by blast
  have "\<bar>real_of_int k\<bar> < 2 ^ p"
  proof -
    have "real_of_int \<bar>k\<bar> < real_of_int (2 ^ p)" using assms(1) by (simp only: of_int_less_iff)
    then show ?thesis by simp
  qed
  then have "(2 :: real) ^ n < 2 ^ p" using a by linarith
  then have np: "n < p" by simp
  have c: "n \<le> p - 1" using np by simp
  have "real_of_int k * 2 ^ (p - 1 - n) = of_int (k * 2 ^ (p - 1 - n))" by simp
  then have "py_round (real_of_int k * 2 ^ (p - 1 - n)) = k * 2 ^ (p - 1 - n)"
    by (simp only: py_round_of_int)
  then show ?thesis
    unfolding round_float_nat_exponent [OF a b assms(2) c] by simp
qed











lemma sqrt_arctan_aux:
  fixes x y :: real
  assumes "x \<noteq> 0"
  shows "sqrt (x\<^sup>2 + y\<^sup>2) = \<bar>x\<bar> * sqrt (1 + (y / x)\<^sup>2)"
proof -
  have "x\<^sup>2 + y\<^sup>2 = x\<^sup>2 * (1 + (y / x)\<^sup>2)"
    using assms by (simp add: field_simps power2_eq_square)
  then show ?thesis by (simp add: real_sqrt_mult)
qed

lemma atan2_cos:
  assumes nz: "(x, y) \<noteq> (0, 0)"
  shows "sqrt (x\<^sup>2 + y\<^sup>2) * cos (atan2 y x) = x"
proof -
  have pos: "0 < sqrt (1 + (y / x)\<^sup>2)" by (simp add: add_pos_nonneg)
  show ?thesis
  proof (cases "x = 0")
    case True
    then show ?thesis using nz by (auto simp: atan2_def)
  next
    case False
    then show ?thesis using pos
      by (auto simp: atan2_def cos_arctan sqrt_arctan_aux [OF False] cos_add cos_diff)
  qed
qed

lemma atan2_sin:
  assumes nz: "(x, y) \<noteq> (0, 0)"
  shows "sqrt (x\<^sup>2 + y\<^sup>2) * sin (atan2 y x) = y"
proof -
  have pos: "0 < sqrt (1 + (y / x)\<^sup>2)" by (simp add: add_pos_nonneg)
  show ?thesis
  proof (cases "x = 0")
    case True
    then show ?thesis using nz by (auto simp: atan2_def)
  next
    case False
    then show ?thesis using pos
      by (auto simp: atan2_def sin_arctan sqrt_arctan_aux [OF False] sin_add sin_diff)
  qed
qed

lemma atan2_range: "- pi < atan2 y x \<and> atan2 y x \<le> pi"
proof -
  have b: "- (pi / 2) < arctan (y / x)" "arctan (y / x) < pi / 2"
    by (rule arctan_lbound, rule arctan_ubound)
  have neg: "x < 0 \<Longrightarrow> 0 \<le> y \<Longrightarrow> arctan (y / x) \<le> 0"
    by (simp add: arctan_le_zero_iff divide_nonneg_neg)
  have pos: "x < 0 \<Longrightarrow> y < 0 \<Longrightarrow> 0 < arctan (y / x)"
    by (simp add: zero_less_arctan_iff divide_neg_neg)
  have p: "0 < pi" by (rule pi_gt_zero)
  show ?thesis
    unfolding atan2_def using b neg pos p by (auto; linarith)
qed

text \<open>
  C8. For normal components not both zero, \<open>normal_to_angle x y\<close> is \<open>atan2 y x * 180 / pi\<close>;
  it lies in \<open>(-180, 180]\<close> and is the angle of the vector in degrees: turning the positive
  x axis by it (converted back to radians) gives the direction of \<open>(x, y)\<close>.
\<close>

theorem normal_to_angle_spec:
  assumes "(x, y) \<noteq> (0, 0)"
  shows "normal_to_angle x y = atan2 y x * 180 / pi
         \<and> - 180 < normal_to_angle x y \<and> normal_to_angle x y \<le> 180
         \<and> x = sqrt (x\<^sup>2 + y\<^sup>2) * cos (normal_to_angle x y * pi / 180)
         \<and> y = sqrt (x\<^sup>2 + y\<^sup>2) * sin (normal_to_angle x y * pi / 180)"
proof -
  have rad: "normal_to_angle x y * pi / 180 = atan2 y x"
    by (simp add: normal_to_angle_def)
  have p: "0 < pi" by (rule pi_gt_zero)
  have lo: "- 180 < normal_to_angle x y"
  proof -
    have "- pi < atan2 y x" using atan2_range by blast
    then have "- pi * (180 / pi) < atan2 y x * (180 / pi)"
      using p by (intro mult_strict_right_mono) simp_all
    then show ?thesis using p by (simp add: normal_to_angle_def)
  qed
  have hi: "normal_to_angle x y \<le> 180"
  proof -
    have "atan2 y x \<le> pi" using atan2_range by blast
    then have "atan2 y x * (180 / pi) \<le> pi * (180 / pi)"
      using p by (intro mult_right_mono) simp_all
    then show ?thesis using p by (simp add: normal_to_angle_def)
  qed
  show ?thesis
    unfolding rad using lo hi atan2_cos [OF assms] atan2_sin [OF assms]
    by (simp add: normal_to_angle_def)
qed

theorem normal_to_angle_spec_witness:
  "((0 :: real), (1 :: real)) \<noteq> (0, 0) \<and> normal_to_angle 0 1 = 90
   \<and> normal_to_angle 1 0 = 0 \<and> normal_to_angle (- 1) 0 = 180
   \<and> normal_to_angle 0 (- 1) = - 90 \<and> normal_to_angle 1 1 = 45"
proof -
  have h: "((0 :: real), (1 :: real)) \<noteq> (0, 0)" by simp
  have "normal_to_angle 0 1 = atan2 1 0 * 180 / pi"
    using normal_to_angle_spec [OF h] by blast
  then have a: "normal_to_angle 0 1 = 90" by (simp add: atan2_def)
  have b: "normal_to_angle 1 0 = 0" "normal_to_angle (- 1) 0 = 180"
    "normal_to_angle 0 (- 1) = - 90" "normal_to_angle 1 1 = 45"
    by (simp_all add: normal_to_angle_def atan2_def arctan_one)
  show ?thesis using h a b by blast
qed

text \<open>
  C9. On a point with at least three coordinates \<open>translate_point\<close> returns exactly the
  first three coordinates, each translated by its offset and then scaled; with the default
  arguments it returns the first three coordinates themselves.
\<close>

theorem translate_point_spec:
  assumes "3 \<le> length pt"
  shows "translate_point pt x0 y0 z0 s =
           Inr [(pt ! 0 - x0) * s, (pt ! 1 - y0) * s, (pt ! 2 - z0) * s]
         \<and> translate_point_default pt = Inr (take 3 pt)"
proof -
  obtain a r1 where d1: "pt = a # r1" using assms by (cases pt) auto
  obtain b r2 where d2: "r1 = b # r2" using assms d1 by (cases r1) auto
  obtain c rest where d3: "r2 = c # rest" using assms d1 d2 by (cases r2) auto
  have d: "pt = a # b # c # rest" by (simp add: d1 d2 d3)
  show ?thesis
    by (simp add: d translate_point_def translate_point_default_def)
qed

theorem translate_point_spec_witness:
  "3 \<le> length [10, 20, 30, 40 :: real]
   \<and> translate_point [10, 20, 30, 40] 1 2 3 2 = Inr [18, 36, 54]
   \<and> translate_point_default [10, 20, 30, 40] = Inr [10, 20, 30]"
proof -
  have h: "3 \<le> length [10, 20, 30, 40 :: real]" by simp
  show ?thesis using h translate_point_spec [OF h, of 1 2 3 2] by simp
qed

section \<open>Facts about the host registry\<close>





lemma round_single_of_int:
  assumes "\<bar>k\<bar> < 2 ^ 24"
  shows "round_single (of_int k) = of_int k"
  unfolding round_single_def by (rule round_float_of_int [OF assms]) simp


lemma round_single_0 [simp]: "round_single 0 = 0"
  by (simp add: round_single_def round_float_def)

lemma round_single_1 [simp]: "round_single 1 = 1"
  using round_single_of_int [of 1] by simp


lemma map_of_update_entries:
  "map_of (map (\<lambda>(j, p). if j = i then (j, f p) else (j, p)) xs) k =
     (if k = i then map_option f (map_of xs k) else map_of xs k)"
  by (induction xs) auto

lemma proxy_of_update [simp]:
  "proxy_of (update_proxy h i f) k =
     (if k = i then map_option f (proxy_of h k) else proxy_of h k)"
  by (simp add: proxy_of_def update_proxy_def map_of_update_entries)

lemma next_id_update [simp]: "next_id (update_proxy h i f) = next_id h"
  by (simp add: update_proxy_def)

lemma host_ok_fresh: "host_ok h \<Longrightarrow> next_id h \<le> k \<Longrightarrow> proxy_of h k = None"
  by (auto simp: host_ok_def proxy_of_def map_of_eq_None_iff list_all_iff)

lemma proxy_of_new:
  "host_ok h \<Longrightarrow>
   proxy_of (fst (new_proxy h name kd m)) k =
     (if k = next_id h
      then Some \<lparr>reg_name = name, kind = kd, fetched = m, Script = None, SliceType = None,
                 visible = False, representation = None, widgets3d = True, color_by = None,
                 display_scale = (1, 1, 1)\<rparr>
      else proxy_of h k)"
  using host_ok_fresh [of h "next_id h"]
  by (auto simp: new_proxy_def proxy_of_def map_add_def split: option.splits)

lemma snd_new_proxy [simp]: "snd (new_proxy h name kd m) = next_id h"
  by (simp add: new_proxy_def)

lemma next_id_new [simp]: "next_id (fst (new_proxy h name kd m)) = Suc (next_id h)"
  by (simp add: new_proxy_def)

lemma host_ok_update [simp]: "host_ok (update_proxy h i f) = host_ok h"
  by (auto simp: host_ok_def update_proxy_def list_all_iff split: if_splits)

lemma host_ok_new [simp]: "host_ok h \<Longrightarrow> host_ok (fst (new_proxy h name kd m))"
  by (auto simp: host_ok_def new_proxy_def list_all_iff)


lemma proxy_of_view [simp]:
  "proxy_of (GetActiveViewOrCreate h) = proxy_of h"
  "proxy_of (Render h) = proxy_of h"
  "proxy_of (ResetCamera h) = proxy_of h"
  "proxy_of (SetSize h wh) = proxy_of h"
  "proxy_of (SaveScreenshot h p r t) = proxy_of h"
  by (simp_all add: fun_eq_iff proxy_of_def GetActiveViewOrCreate_def Render_def ResetCamera_def
      SetSize_def SaveScreenshot_def)

lemma next_id_view [simp]:
  "next_id (GetActiveViewOrCreate h) = next_id h"
  "next_id (Show h i rep) = next_id h"
  "next_id (Hide h i) = next_id h"
  by (simp_all add: GetActiveViewOrCreate_def Show_def Hide_def)

lemma host_ok_view [simp]:
  "host_ok (GetActiveViewOrCreate h) = host_ok h"
  "host_ok (Show h i rep) = host_ok h"
  "host_ok (Hide h i) = host_ok h"
  by (simp_all add: Show_def Hide_def) (simp add: host_ok_def GetActiveViewOrCreate_def)

lemma Fetch_Some: "Fetch h d = Inr m \<Longrightarrow> \<exists>q. proxy_of h d = Some q \<and> fetched q = Some m"
  by (auto simp: Fetch_def split: option.splits)

lemma programmable_filter_result:
  assumes ok: "host_ok h" and inp: "Fetch h d = Inr pdi"
  shows "\<exists>h'. programmable_filter h d s name = Inr (h', next_id h)
           \<and> Fetch h' (next_id h) = Inr (run_script s pdi)
           \<and> (\<exists>p. proxy_of h' (next_id h) = Some p \<and> Script p = Some s
                  \<and> kind p = ProgrammableFilter d \<and> reg_name p = name)
           \<and> next_id h' = Suc (next_id h) \<and> host_ok h'"
proof -
  from Fetch_Some [OF inp] obtain q where q: "proxy_of h d = Some q" "fetched q = Some pdi"
    by blast
  have dn: "d \<noteq> next_id h" using host_ok_fresh [OF ok, of "next_id h"] q by auto
  define h2 where "h2 = Show (GetActiveViewOrCreate h) d None"
  have ok2: "host_ok h2" and n2: "next_id h2 = next_id h" by (simp_all add: h2_def ok)
  have q2: "\<exists>q'. proxy_of h2 d = Some q' \<and> fetched q' = Some pdi"
    using q by (simp add: h2_def Show_def)
  then obtain q' where q': "proxy_of h2 d = Some q'" "fetched q' = Some pdi" by blast
  define h3 where "h3 = fst (new_proxy h2 name (ProgrammableFilter d) None)"
  have new: "new_proxy h2 name (ProgrammableFilter d) None = (h3, next_id h)"
    by (simp add: h3_def n2 [symmetric] prod_eq_iff)
  have p3: "proxy_of h3 k = (if k = next_id h then Some \<lparr>reg_name = name, kind = ProgrammableFilter d, fetched = None, Script = None, SliceType = None,
                 visible = False, representation = None, widgets3d = True, color_by = None,
                 display_scale = (1, 1, 1)\<rparr> else proxy_of h2 k)" for k
    unfolding h3_def using proxy_of_new [OF ok2] n2 by simp
  have ok3: "host_ok h3" by (simp add: h3_def ok2)
  have n3: "next_id h3 = Suc (next_id h)" by (simp add: h3_def n2)
  show ?thesis
    unfolding programmable_filter_def Let_def h2_def [symmetric] ProgrammableFilter_new_def new
    using dn q' ok3 n3
    by (simp add: array0_name_def set_Script_def p3 Show_def Hide_def ColorBy_def Fetch_def)
qed





section \<open>The scaling script\<close>




section \<open>Deleting objects by name\<close>

text \<open>
  C4. \<open>delete_objects\<close> is meant to delete the live sources whose registration name
  contains one of the identifiers. As written it iterates the bound method
  \<open>GetSources().keys\<close> and raises \<open>TypeError\<close> on every input, before the loop body runs:
  nothing is deleted.
\<close>

theorem delete_objects_raises: "delete_objects h names = Inl TypeError"
  by (simp add: delete_objects_def attr_keys_def)

text \<open>
  The example: a ruler is registered and \<open>delete_objects()\<close> raises. Had the keys been
  obtained by calling \<open>keys()\<close>, the loop body would have deleted the ruler and kept the
  data file.
\<close>

lemma delete_objects_example:
  "map (reg_name \<circ> snd) (proxies host_ruler) = [''model.vtk'', ''ruler_1'']
   \<and> delete_objects host_ruler None = Inl TypeError
   \<and> py_call (attr_keys (GetSources host_ruler))
       = Inr (PyList [(''model.vtk'', 0), (''ruler_1'', 1)])
   \<and> map (reg_name \<circ> snd)
         (proxies (fold (delete_matching [''ruler'', ''point'', ''glyph''])
                     (map fst [(''model.vtk'', 0 :: nat), (''ruler_1'', 1)]) host_ruler))
       = [''model.vtk'']"
  by (simp add: delete_objects_def attr_keys_def GetSources_def delete_matching_def
      FindSource_def Delete_def host_ruler_def host0_def source0_def)

section \<open>The opened data file and its depth slice\<close>

lemma keep_fields_update [simp]:
  "slice_defaults (update_proxy h i f) = slice_defaults h"
  "files (update_proxy h i f) = files h"
  "empty_range (update_proxy h i f) = empty_range h"
  by (simp_all add: update_proxy_def)

lemma keep_fields_new [simp]:
  "slice_defaults (fst (new_proxy h name kd m)) = slice_defaults h"
  "files (fst (new_proxy h name kd m)) = files h"
  "empty_range (fst (new_proxy h name kd m)) = empty_range h"
  by (simp_all add: new_proxy_def)

lemma depth_slice_result:
  assumes ok: "host_ok h" and q: "proxy_of h (data c) = Some q"
  shows "\<exists>h' p.
           depth_slice c h depth hide_original = Inr (next_id h, c, h')
           \<and> proxy_of h (next_id h) = None
           \<and> proxy_of h' (next_id h) = Some p
           \<and> kind p = Slice (data c)
           \<and> SliceType p =
               Some \<lparr>type_name = ''Plane'', Normal = (0, 0, 1),
                     Origin = (fst (Origin (slice_defaults h (data c) ''Plane'')),
                               fst (snd (Origin (slice_defaults h (data c) ''Plane''))),
                               depth)\<rparr>
           \<and> visible p \<and> \<not> widgets3d p
           \<and> proxy_of h' (data c) = Some (if hide_original then q\<lparr>visible := False\<rparr> else q)
           \<and> host_ok h'"
proof -
  have fresh: "proxy_of h (next_id h) = None" using host_ok_fresh [OF ok] by simp
  have dn: "data c \<noteq> next_id h" using fresh q by auto
  define h0 where "h0 = fst (new_proxy h ''Slice'' (Slice (data c)) None)"
  have new: "new_proxy h ''Slice'' (Slice (data c)) None = (h0, next_id h)"
    by (simp add: h0_def prod_eq_iff)
  have p0: "proxy_of h0 k =
      (if k = next_id h
       then Some \<lparr>reg_name = ''Slice'', kind = Slice (data c), fetched = None, Script = None,
                  SliceType = None, visible = False, representation = None, widgets3d = True,
                  color_by = None, display_scale = (1, 1, 1)\<rparr>
       else proxy_of h k)" for k
    unfolding h0_def using proxy_of_new [OF ok] by simp
  have ok0: "host_ok h0" by (simp add: h0_def ok)
  have sd: "slice_defaults h0 = slice_defaults h" by (simp add: h0_def)
  show ?thesis
    unfolding depth_slice_def Slice_new_def new Let_def
    using dn q fresh ok0
    by (cases "slice_defaults h (data c) ''Plane''")
       (simp add: set_SliceType_def set_Normal_def set_Origin_def get_Origin_def
          Hide3DWidgets_def Show_def Hide_def p0 sd)
qed


lemma coords_loop:
  "k \<le> length ps \<Longrightarrow>
   fold (\<lambda>i (x, y, z). case ps ! i of (x', y', z') \<Rightarrow> (x @ [x'], y @ [y'], z @ [z']))
     [0..<k] ([], [], [])
   = (map fst (take k ps), map (fst \<circ> snd) (take k ps), map (snd \<circ> snd) (take k ps))"
proof (induction k)
  case 0
  then show ?case by simp
next
  case (Suc k)
  then have k: "k < length ps" by simp
  obtain x y z where p: "ps ! k = (x, y, z)" by (cases "ps ! k") auto
  show ?case using Suc k p by (simp add: take_Suc_conv_app_nth)
qed

lemma get_coordinates_eq:
  assumes "Fetch h d = Inr m"
  shows "get_coordinates h d None =
           Inr (map fst (points m), map (fst \<circ> snd) (points m), map (snd \<circ> snd) (points m))"
  using assms coords_loop [of "length (points m)" "points m"]
  by (simp add: get_coordinates_def)

lemma depth_slice_returns_self:
  assumes ok: "host_ok h"
  shows "\<exists>h'. depth_slice c h depth hide_original = Inr (next_id h, c, h')"
proof -
  define h0 where "h0 = fst (new_proxy h ''Slice'' (Slice (data c)) None)"
  have new: "new_proxy h ''Slice'' (Slice (data c)) None = (h0, next_id h)"
    by (simp add: h0_def prod_eq_iff)
  have p0: "proxy_of h0 (next_id h) =
       Some \<lparr>reg_name = ''Slice'', kind = Slice (data c), fetched = None, Script = None,
                  SliceType = None, visible = False, representation = None, widgets3d = True,
                  color_by = None, display_scale = (1, 1, 1)\<rparr>"
    unfolding h0_def using proxy_of_new [OF ok] by simp
  show ?thesis
    unfolding depth_slice_def Slice_new_def new Let_def
    by (simp add: set_SliceType_def set_Normal_def set_Origin_def get_Origin_def p0)
qed

lemma depth_slice_self:
  "depth_slice c h depth hide_original = Inr (s, c', h') \<Longrightarrow> c' = c"
  by (auto simp: depth_slice_def Let_def split: prod.splits sum.splits)

lemma stats_self: "snd (stats c) = c"
  by (simp add: stats_def split: prod.splits sum.splits)

lemma center_self: "snd (center c) = c"
  by (simp add: center_def split: prod.splits)

lemma OpenDataFile_result:
  assumes "files h path = Some m"
  shows "OpenDataFile h path = Inr (fst (new_proxy h path (Reader path) (Some m)), next_id h)"
  using assms by (simp add: OpenDataFile_def prod_eq_iff)

lemma open_and_scale_result:
  assumes ok: "host_ok h" and f: "files h path = Some m"
  shows "\<exists>hs d pdo.
           open_and_scale h path sd sc zo = Inr (hs, d)
           \<and> host_ok hs
           \<and> d = (if truthy sd \<or> truthy sc then Suc (next_id h) else next_id h)
           \<and> Fetch hs d = Inr pdo
           \<and> pdo = (if truthy sd \<or> truthy sc then run_script (scale_script sd sc zo) m else m)
           \<and> (truthy sd \<or> truthy sc \<longrightarrow>
                 scale_input (fst (new_proxy h path (Reader path) (Some m))) (next_id h) sd sc zo
                   = Inr (hs, d))
           \<and> (\<not> (truthy sd \<or> truthy sc) \<longrightarrow>
                 hs = fst (new_proxy h path (Reader path) (Some m)))"
proof -
  define h1 where "h1 = fst (new_proxy h path (Reader path) (Some m))"
  have ok1: "host_ok h1" and n1: "next_id h1 = Suc (next_id h)" by (simp_all add: h1_def ok)
  have f1: "Fetch h1 (next_id h) = Inr m"
    unfolding h1_def Fetch_def using proxy_of_new [OF ok] by simp
  show ?thesis
  proof (cases "truthy sd \<or> truthy sc")
    case True
    from programmable_filter_result [OF ok1 f1, of "scale_script sd sc zo" "''ProgrammableFilter''"]
    obtain hs where "scale_input h1 (next_id h) sd sc zo = Inr (hs, Suc (next_id h))"
      "Fetch hs (Suc (next_id h)) = Inr (run_script (scale_script sd sc zo) m)" "host_ok hs"
      by (auto simp: scale_input_def n1)
    then show ?thesis using True
      by (simp add: open_and_scale_def OpenDataFile_result [OF f] h1_def [symmetric])
  next
    case False
    then show ?thesis using ok1 f1
      by (simp add: open_and_scale_def OpenDataFile_result [OF f] h1_def [symmetric])
  qed
qed

lemma CartesianDataFile_result:
  assumes ok: "host_ok h" and f: "files h path = Some m"
  shows "\<exists>h' c hs.
           CartesianDataFile h path sd sc zo = Inr (h', c)
           \<and> open_and_scale h path sd sc zo = Inr (hs, data c)
           \<and> get_coordinates hs (data c) None = Inr (data_coords c)
           \<and> get_data_minmax hs (data c) None = Inr (data_bounds c)
           \<and> h' = Show hs (data c) (Some ''UnstructuredGridRepresentation'')
           \<and> host_ok h'"
proof -
  from open_and_scale_result [OF ok f, of sd sc zo]
  obtain hs d pdo where o: "open_and_scale h path sd sc zo = Inr (hs, d)"
    and oks: "host_ok hs" and fe: "Fetch hs d = Inr pdo"
    by blast
  have "\<exists>r. get_data_minmax hs d None = Inr r"
    using fe by (auto simp: get_data_minmax_def array0_range_def Fetch_def
        split: option.splits list.splits)
  then obtain r where r: "get_data_minmax hs d None = Inr r" by blast
  have "\<exists>cs. get_coordinates hs d None = Inr cs"
    using fe by (simp add: get_coordinates_def del: split_paired_Ex)
  then obtain cs where cs: "get_coordinates hs d None = Inr cs" by blast
  show ?thesis
    unfolding CartesianDataFile_def using o r cs oks by simp
qed


lemma CartesianDataFile_host0:
  "CartesianDataFile host0 ''model.vtk'' None None False = Inr (host2, cdf0)"
  by (simp add: CartesianDataFile_def open_and_scale_def OpenDataFile_def truthy_def
      get_coordinates_def get_data_minmax_def array0_range_def Fetch_def Show_def
      proxy_of_def update_proxy_def new_proxy_def host0_def host2_def cdf0_def source0_def
      mesh0_def)

lemma host0_ok: "host_ok host0"
  by (simp add: host_ok_def host0_def)

lemma host2_ok: "host_ok host2"
  by (simp add: host_ok_def host2_def host0_def)

text \<open>
  C5 (amended). On a host in which the data of the opened file is live, \<open>depth_slice\<close>
  returns a new slice of that data whose slice type is a plane with normal \<open>(0, 0, 1)\<close> and
  whose origin keeps the X and Y the host assigned and has the depth as Z. The slice is
  shown. The original data is hidden by the call when \<open>hide_original\<close> holds and keeps its
  visibility otherwise: after the call it is hidden exactly when \<open>hide_original\<close> holds or
  it was hidden before.
\<close>

theorem depth_slice_spec:
  assumes "host_ok h" and "proxy_of h (data c) = Some q"
  shows "\<exists>s h' p q'.
           depth_slice c h depth hide_original = Inr (s, c, h')
           \<and> proxy_of h s = None
           \<and> proxy_of h' s = Some p
           \<and> kind p = Slice (data c)
           \<and> SliceType p =
               Some \<lparr>type_name = ''Plane'', Normal = (0, 0, 1),
                     Origin = (fst (Origin (slice_defaults h (data c) ''Plane'')),
                               fst (snd (Origin (slice_defaults h (data c) ''Plane''))),
                               depth)\<rparr>
           \<and> visible p
           \<and> proxy_of h' (data c) = Some q'
           \<and> q' = (if hide_original then q\<lparr>visible := False\<rparr> else q)
           \<and> (\<not> visible q' \<longleftrightarrow> hide_original \<or> \<not> visible q)"
proof -
  from depth_slice_result [OF assms, of depth hide_original]
  obtain h' p where r: "depth_slice c h depth hide_original = Inr (next_id h, c, h')"
    "proxy_of h (next_id h) = None" "proxy_of h' (next_id h) = Some p"
    "kind p = Slice (data c)"
    "SliceType p =
               Some \<lparr>type_name = ''Plane'', Normal = (0, 0, 1),
                     Origin = (fst (Origin (slice_defaults h (data c) ''Plane'')),
                               fst (snd (Origin (slice_defaults h (data c) ''Plane''))),
                               depth)\<rparr>"
    "visible p"
    "proxy_of h' (data c) = Some (if hide_original then q\<lparr>visible := False\<rparr> else q)"
    by blast
  have "\<not> visible (if hide_original then q\<lparr>visible := False\<rparr> else q)
          \<longleftrightarrow> hide_original \<or> \<not> visible q"
    by simp
  with r show ?thesis by blast
qed

theorem depth_slice_spec_witness:
  "host_ok host2
   \<and> CartesianDataFile host0 ''model.vtk'' None None False = Inr (host2, cdf0)
   \<and> (\<exists>q. proxy_of host2 (data cdf0) = Some q \<and> visible q)
   \<and> (\<exists>s h' p q'.
         depth_slice cdf0 host2 (- 5) True = Inr (s, cdf0, h')
         \<and> proxy_of h' s = Some p
         \<and> SliceType p =
             Some \<lparr>type_name = ''Plane'', Normal = (0, 0, 1), Origin = (11, 23, - 5)\<rparr>
         \<and> visible p
         \<and> proxy_of h' (data cdf0) = Some q' \<and> \<not> visible q')
   \<and> (\<exists>s h' q'.
         depth_slice cdf0 host2 (- 5) False = Inr (s, cdf0, h')
         \<and> proxy_of h' (data cdf0) = Some q' \<and> visible q')"
proof -
  let ?q = "source0\<lparr>visible := True, representation := Some ''UnstructuredGridRepresentation''\<rparr>"
  have q: "proxy_of host2 (data cdf0) = Some ?q"
    by (simp add: proxy_of_def host2_def cdf0_def)
  have v: "visible ?q" by simp
  have sd: "Origin (slice_defaults host2 (data cdf0) ''Plane'') = (11, 23, 32)"
    by (simp add: host2_def host0_def)
  from depth_slice_spec [OF host2_ok q, of "- 5" True]
  have a: "\<exists>s h' p q'.
         depth_slice cdf0 host2 (- 5) True = Inr (s, cdf0, h')
         \<and> proxy_of h' s = Some p
         \<and> SliceType p =
             Some \<lparr>type_name = ''Plane'', Normal = (0, 0, 1), Origin = (11, 23, - 5)\<rparr>
         \<and> visible p
         \<and> proxy_of h' (data cdf0) = Some q' \<and> \<not> visible q'"
    unfolding sd by auto
  from depth_slice_spec [OF host2_ok q, of "- 5" False]
  have b: "\<exists>s h' q'.
         depth_slice cdf0 host2 (- 5) False = Inr (s, cdf0, h')
         \<and> proxy_of h' (data cdf0) = Some q' \<and> visible q'"
    using v by auto
  show ?thesis using host2_ok CartesianDataFile_host0 q v a b by blast
qed

text \<open>
  The unamended statement fails on data that is already hidden: after a first slice with
  the default \<open>hide_original\<close>, a second one with \<open>hide_original = False\<close> leaves the data
  hidden.
\<close>

theorem depth_slice_hidden_counterexample:
  "CartesianDataFile host0 ''model.vtk'' None None False = Inr (host2, cdf0)
   \<and> depth_slice cdf0 host2 (- 5) True = Inr (1, cdf0, host3)
   \<and> depth_slice cdf0 host3 (- 10) False = Inr (2, cdf0, host4)
   \<and> map_option visible (proxy_of host4 (data cdf0)) = Some False"
proof -
  have a: "depth_slice cdf0 host2 (- 5) True = Inr (1, cdf0, host3)"
    by (simp add: depth_slice_def Slice_new_def set_SliceType_def set_Normal_def
        set_Origin_def get_Origin_def Hide3DWidgets_def Show_def Hide_def proxy_of_def
        update_proxy_def new_proxy_def host2_def host3_def host0_def cdf0_def slice_at_def
        source0_def)
  have b: "depth_slice cdf0 host3 (- 10) False = Inr (2, cdf0, host4)"
    by (simp add: depth_slice_def Slice_new_def set_SliceType_def set_Normal_def
        set_Origin_def get_Origin_def Hide3DWidgets_def Show_def Hide_def proxy_of_def
        update_proxy_def new_proxy_def host3_def host4_def host0_def cdf0_def slice_at_def
        source0_def)
  have c: "map_option visible (proxy_of host4 (data cdf0)) = Some False"
    by (simp add: proxy_of_def host4_def cdf0_def)
  show ?thesis using CartesianDataFile_host0 a b c by blast
qed

text \<open>
  C6. Opening a readable file builds the object: its handle differs from the one that
  \<open>OpenDataFile\<close> returned exactly when \<open>scale_data\<close> or \<open>scale_coords\<close> is given and
  true, and is then the filter that \<open>scale_input\<close> returned; the coordinates and the range
  are cached from that handle. \<open>depth_slice\<close> (which returns on every well-formed host),
  \<open>stats\<close> and \<open>center\<close> give the object back as it was.
\<close>

theorem cdf_state_frame:
  assumes "host_ok h" and "files h path = Some m"
  shows "\<exists>h1 r h' c hs.
           OpenDataFile h path = Inr (h1, r)
           \<and> CartesianDataFile h path sd sc zo = Inr (h', c)
           \<and> (data c \<noteq> r \<longleftrightarrow> truthy sd \<or> truthy sc)
           \<and> (if truthy sd \<or> truthy sc
               then scale_input h1 r sd sc zo = Inr (hs, data c)
               else hs = h1 \<and> data c = r)
           \<and> get_coordinates hs (data c) None = Inr (data_coords c)
           \<and> get_data_minmax hs (data c) None = Inr (data_bounds c)
           \<and> (\<forall>hh depth hide. host_ok hh \<longrightarrow>
                 (\<exists>s hh'. depth_slice c hh depth hide = Inr (s, c, hh')))
           \<and> snd (stats c) = c
           \<and> snd (center c) = c"
proof -
  define h1 where "h1 = fst (new_proxy h path (Reader path) (Some m))"
  have o: "OpenDataFile h path = Inr (h1, next_id h)"
    by (simp add: OpenDataFile_result [OF assms(2)] h1_def)
  from CartesianDataFile_result [OF assms, of sd sc zo]
  obtain h' c hs where c: "CartesianDataFile h path sd sc zo = Inr (h', c)"
    and os: "open_and_scale h path sd sc zo = Inr (hs, data c)"
    and gc: "get_coordinates hs (data c) None = Inr (data_coords c)"
    and gm: "get_data_minmax hs (data c) None = Inr (data_bounds c)"
    by blast
  from open_and_scale_result [OF assms, of sd sc zo] os
  have d: "data c = (if truthy sd \<or> truthy sc then Suc (next_id h) else next_id h)"
    and t: "truthy sd \<or> truthy sc \<longrightarrow> scale_input h1 (next_id h) sd sc zo = Inr (hs, data c)"
    and f: "\<not> (truthy sd \<or> truthy sc) \<longrightarrow> hs = h1"
    by (auto simp: h1_def)
  have ds: "\<forall>hh depth hide. host_ok hh \<longrightarrow>
                 (\<exists>s hh'. depth_slice c hh depth hide = Inr (s, c, hh'))"
    using depth_slice_returns_self by blast
  have "(data c \<noteq> next_id h \<longleftrightarrow> truthy sd \<or> truthy sc)" using d by simp
  moreover have "if truthy sd \<or> truthy sc
               then scale_input h1 (next_id h) sd sc zo = Inr (hs, data c)
               else hs = h1 \<and> data c = next_id h"
    using t f d by simp
  ultimately show ?thesis
    using o c gc gm ds stats_self [of c] center_self [of c] by blast
qed

theorem cdf_state_frame_witness:
  "host_ok host0 \<and> files host0 ''model.vtk'' = Some mesh0
   \<and> OpenDataFile host0 ''model.vtk'' = Inr (host1, 0)
   \<and> (\<exists>h' c. CartesianDataFile host0 ''model.vtk'' (Some 2) None True = Inr (h', c)
         \<and> data c \<noteq> 0
         \<and> (\<exists>s hh'. depth_slice c host2 (- 5) True = Inr (s, c, hh'))
         \<and> snd (stats c) = c \<and> snd (center c) = c)
   \<and> (\<exists>h' c. CartesianDataFile host0 ''model.vtk'' None (Some 0) True = Inr (h', c)
         \<and> data c = 0)"
proof -
  have f: "files host0 ''model.vtk'' = Some mesh0" by (simp add: host0_def)
  have o: "OpenDataFile host0 ''model.vtk'' = Inr (host1, 0)"
    by (simp add: OpenDataFile_def new_proxy_def host0_def host1_def source0_def)
  have t: "truthy (Some 2) \<or> truthy None" "\<not> (truthy None \<or> truthy (Some 0))"
    by (simp_all add: truthy_def)
  from cdf_state_frame [OF host0_ok f, of "Some 2" None True]
  obtain h1 r h' c where
    a1: "OpenDataFile host0 ''model.vtk'' = Inr (h1, r)"
    and a2: "CartesianDataFile host0 ''model.vtk'' (Some 2) None True = Inr (h', c)"
    and a3: "(data c \<noteq> r \<longleftrightarrow> truthy (Some 2) \<or> truthy None)"
    and a4: "\<forall>hh depth hide. host_ok hh \<longrightarrow>
                 (\<exists>s hh'. depth_slice c hh depth hide = Inr (s, c, hh'))"
    and a5: "snd (stats c) = c" "snd (center c) = c"
    by blast
  have r0: "r = 0" using a1 o by simp
  have a6: "data c \<noteq> 0" using a3 t(1) r0 by simp
  have a7: "\<exists>s hh'. depth_slice c host2 (- 5) True = Inr (s, c, hh')"
    using a4 host2_ok by blast
  have a: "\<exists>h' c. CartesianDataFile host0 ''model.vtk'' (Some 2) None True = Inr (h', c)
         \<and> data c \<noteq> 0
         \<and> (\<exists>s hh'. depth_slice c host2 (- 5) True = Inr (s, c, hh'))
         \<and> snd (stats c) = c \<and> snd (center c) = c"
    using a2 a6 a7 a5 by blast
  from cdf_state_frame [OF host0_ok f, of None "Some 0" True]
  obtain h1' r' h'' c' where
    b1: "OpenDataFile host0 ''model.vtk'' = Inr (h1', r')"
    and b2: "CartesianDataFile host0 ''model.vtk'' None (Some 0) True = Inr (h'', c')"
    and b3: "(data c' \<noteq> r' \<longleftrightarrow> truthy None \<or> truthy (Some 0))"
    by blast
  have "r' = 0" using b1 o by simp
  then have "data c' = 0" using b3 t(2) by simp
  then have b: "\<exists>h' c. CartesianDataFile host0 ''model.vtk'' None (Some 0) True = Inr (h', c)
         \<and> data c = 0"
    using b2 by blast
  show ?thesis using host0_ok f o a b by blast
qed

section \<open>The entry point\<close>

lemma check_args0:
  "check world0 args0 = Inr (world0, args0\<lparr>fid_out := Some ''model.vtk.png''\<rparr>)"
  by (simp add: check_def path_exists_def world0_def args0_def)


lemma startup_args0: "startup world0 host0 args0 = Inr (world0, host_setup, args1, config0)"
proof -
  have s: "setup_main world0 host0 ''config.py'' = Inr (host_setup, config0)"
    by (simp add: setup_main_def path_exists_def world0_def host_setup_def host0_def
        config0_def SetSize_def Render_def GetActiveViewOrCreate_def)
  have c: "cfg_fid args0 = ''config.py''" by (simp add: args0_def)
  show ?thesis
    by (simp add: startup_def parse_args_def check_args0 s c args1_def)
qed

lemma movie_frame_args0:
  "map (kind \<circ> snd) (proxies (movie_frame world0 args1 config0 host_setup))
     = [AVSUCDReader [''model.vtk'']]
   \<and> screenshots (movie_frame world0 args1 config0 host_setup)
     = [(''out/model.vtk.png'', (2100, 2100), True)]"
  by (simp add: movie_frame_def world0_def args1_def args0_def config0_def
      movie_frame_step_def SurfaceMovie_def AVSUCDReader_new_def new_proxy_def Show_def
      update_proxy_def rescale_lut_def rescale_pwf_def set_display_scale_def ResetCamera_def
      screenshot_def SaveScreenshot_def path_join_def host_setup_def host0_def)

lemma cartesian_args0:
  "\<exists>h. cartesian no_colors args1 config0 host_setup = Inr h
     \<and> map (kind \<circ> snd) (proxies h) = [Reader ''model.vtk'', ProgrammableFilter 0, Slice 1]
     \<and> screenshots h = [(''out/model.vtk.png'', (2100, 2100), True)]"
  by (simp add: cartesian_def no_colors_def args1_def args0_def config0_def
      CartesianDataFile_def open_and_scale_def OpenDataFile_def truthy_def
      scale_input_def programmable_filter_def ProgrammableFilter_new_def set_Script_def
      array0_name_def scale_script_def run_script_def GetBounds_def script_point_def
      get_coordinates_def get_data_minmax_def array0_range_def Fetch_def
      depth_slice_def Slice_new_def set_SliceType_def set_Normal_def set_Origin_def
      get_Origin_def center_def py_min_def py_max_def single_point_def
      proxy_of_def update_proxy_def new_proxy_def GetActiveViewOrCreate_def ResetCamera_def
      Show_def Hide_def Hide3DWidgets_def ColorBy_def screenshot_def SaveScreenshot_def
      path_join_def host_setup_def host0_def mesh0_def Let_def)

lemma cartesian_screenshot:
  assumes "cartesian colors a cfg h = Inr h'"
  shows "\<exists>name. fid_out a = Some name \<and> screenshots h' \<noteq> []
           \<and> last (screenshots h') = (path_join (output_dir a) name, resolution cfg, True)"
  using assms
  by (auto simp: cartesian_def screenshot_def SaveScreenshot_def
      split: sum.splits prod.splits option.splits)


lemma check_aborts:
  assumes "\<not> movie a" and "\<not> path_exists w (fid a)"
  shows "check w a = Inl (AssertionError (fid a @ '' does not exist''))"
  using assms by (simp add: check_def)

lemma check_Inr:
  assumes "check w a = Inr (w1, a1)"
  shows "(movie a \<or> path_exists w (fid a))
         \<and> a1 = a\<lparr>fid_out := Some (case fid_out a of None \<Rightarrow> fid a @ ''.png'' | Some f \<Rightarrow> f)\<rparr>
         \<and> (w1 = w
              \<or> w1 = w\<lparr>existing := output_dir a # spellings w (output_dir a) @ existing w\<rparr>)"
  using assms
  by (auto simp: check_def mkdir_def split: if_splits sum.splits option.splits)

lemma check_Inl:
  assumes "check w a = Inl e"
  shows "e = AssertionError (fid a @ '' does not exist'') \<or> mkdir_error w (output_dir a) = Some e"
  using assms
  by (auto simp: check_def mkdir_def split: if_splits sum.splits option.splits)

text \<open>
  C1. The entry point is meant to run \<open>movie_frame\<close> under the movie option and
  \<open>cartesian\<close> otherwise. As written, every run that gets past argument parsing and
  configuration loading runs \<open>movie_frame\<close>, whatever the movie flag says; \<open>cartesian\<close>
  is never called. In the example run without the option the host ends with one movie
  reader, where \<open>cartesian\<close> would have opened the file, scaled it and cut a slice.
\<close>

theorem main_always_movie_frame:
  assumes "startup w h a = Inr (w1, h1, a1, cfg)"
  shows "main w h a = Finished w1 (movie_frame w1 a1 cfg h1)"
  using assms
  by (auto simp: startup_def main_def split: sum.splits prod.splits)

theorem main_always_movie_frame_witness:
  "\<not> movie args0
   \<and> startup world0 host0 args0 = Inr (world0, host_setup, args1, config0)
   \<and> main world0 host0 args0 = Finished world0 (movie_frame world0 args1 config0 host_setup)
   \<and> map (kind \<circ> snd) (proxies (movie_frame world0 args1 config0 host_setup))
        = [AVSUCDReader [''model.vtk'']]
   \<and> (\<exists>h. cartesian no_colors args1 config0 host_setup = Inr h
          \<and> map (kind \<circ> snd) (proxies h)
               = [Reader ''model.vtk'', ProgrammableFilter 0, Slice 1])"
proof -
  have m: "\<not> movie args0" by (simp add: args0_def)
  have c: "\<exists>h. cartesian no_colors args1 config0 host_setup = Inr h
          \<and> map (kind \<circ> snd) (proxies h)
               = [Reader ''model.vtk'', ProgrammableFilter 0, Slice 1]"
    using cartesian_args0 by auto
  have k: "map (kind \<circ> snd) (proxies (movie_frame world0 args1 config0 host_setup))
        = [AVSUCDReader [''model.vtk'']]"
    using movie_frame_args0 by (rule conjunct1)
  note r = main_always_movie_frame [OF startup_args0]
  show ?thesis
    by (rule conjI, rule m, rule conjI, rule startup_args0, rule conjI, rule r,
        rule conjI, rule k, rule c)
qed

text \<open>
  C2 (amended). Startup asserts the existence of the input file only when the movie
  option is not given: such a run whose input path does not exist aborts in \<open>check\<close> with
  the message \<open>fid does not exist\<close>, before the host is touched. Under the movie option
  the input is a pattern for \<open>glob\<close> and is not checked. In every other run \<open>check\<close>
  makes the output directory if it is missing (an error of \<open>os.mkdir\<close> aborts the run),
  and \<open>setup\<close> then asserts the existence of the configuration file: if it is missing
  the run aborts with the message about the configuration file, before the host is
  touched; if importing it fails the run aborts with that error; otherwise startup
  completes.
\<close>

theorem startup_asserts:
  "(\<not> movie a \<and> \<not> path_exists w (fid a) \<longrightarrow>
      startup w h a = Inl (AssertionError (fid a @ '' does not exist''))
      \<and> main w h a = Aborted (AssertionError (fid a @ '' does not exist'')) w h)
   \<and> (movie a \<or> path_exists w (fid a) \<longrightarrow>
        (case (if \<not> path_exists w (output_dir a) then mkdir w (output_dir a) else Inr w) of
           Inl e \<Rightarrow> startup w h a = Inl e \<and> main w h a = Aborted e w h
         | Inr w1 \<Rightarrow>
             (if \<not> path_exists w1 (cfg_fid a)
              then startup w h a
                     = Inl (AssertionError
                              (''PyrateView requires a valid .py configuration file: ''
                               @ cfg_fid a))
                   \<and> main w h a
                     = Aborted (AssertionError
                                  (''PyrateView requires a valid .py configuration file: ''
                                   @ cfg_fid a)) w1 h
              else (case import_config w1 (cfg_fid a) of
                      Inl e \<Rightarrow> startup w h a = Inl e \<and> main w h a = Aborted e w1 h
                    | Inr cfg \<Rightarrow>
                        (\<exists>h1 a1. startup w h a = Inr (w1, h1, a1, cfg)
                            \<and> fid a1 = fid a \<and> movie a1 = movie a)))))"
proof (intro conjI impI)
  assume "\<not> movie a \<and> \<not> path_exists w (fid a)"
  then have c: "check w a = Inl (AssertionError (fid a @ '' does not exist''))"
    using check_aborts by blast
  show "startup w h a = Inl (AssertionError (fid a @ '' does not exist''))"
    by (simp add: startup_def parse_args_def c)
  show "main w h a = Aborted (AssertionError (fid a @ '' does not exist'')) w h"
    by (simp add: main_def parse_args_def c)
next
  assume g: "movie a \<or> path_exists w (fid a)"
  let ?m = "if \<not> path_exists w (output_dir a) then mkdir w (output_dir a) else Inr w"
  show "case ?m of
           Inl e \<Rightarrow> startup w h a = Inl e \<and> main w h a = Aborted e w h
         | Inr w1 \<Rightarrow>
             (if \<not> path_exists w1 (cfg_fid a)
              then startup w h a
                     = Inl (AssertionError
                              (''PyrateView requires a valid .py configuration file: ''
                               @ cfg_fid a))
                   \<and> main w h a
                     = Aborted (AssertionError
                                  (''PyrateView requires a valid .py configuration file: ''
                                   @ cfg_fid a)) w1 h
              else (case import_config w1 (cfg_fid a) of
                      Inl e \<Rightarrow> startup w h a = Inl e \<and> main w h a = Aborted e w1 h
                    | Inr cfg \<Rightarrow>
                        (\<exists>h1 a1. startup w h a = Inr (w1, h1, a1, cfg)
                            \<and> fid a1 = fid a \<and> movie a1 = movie a)))"
  proof (cases ?m)
    case (Inl e)
    then have "check w a = Inl e" using g by (auto simp: check_def)
    then show ?thesis using Inl by (simp add: startup_def main_def parse_args_def)
  next
    case (Inr w1)
    define a1 where "a1 = (if fid_out a = None then a\<lparr>fid_out := Some (fid a @ ''.png'')\<rparr> else a)"
    have c: "check w a = Inr (w1, a1)" using g Inr by (auto simp: check_def a1_def)
    have f: "cfg_fid a1 = cfg_fid a" "fid a1 = fid a" "movie a1 = movie a"
      by (simp_all add: a1_def)
    show ?thesis
      unfolding Inr
      by (simp add: startup_def main_def parse_args_def c f setup_main_def
          split: sum.splits)
  qed
qed

theorem startup_asserts_witness:
  "\<not> movie args0 \<and> \<not> path_exists world_bare (fid args0)
   \<and> startup world_bare host0 args0 = Inl (AssertionError ''model.vtk does not exist'')
   \<and> main world_bare host0 args0
        = Aborted (AssertionError ''model.vtk does not exist'') world_bare host0
   \<and> path_exists world_nocfg (fid args0) \<and> \<not> path_exists world_nocfg (cfg_fid args0)
   \<and> main world_nocfg host0 args0
        = Aborted (AssertionError
                     ''PyrateView requires a valid .py configuration file: config.py'')
            world_nocfg host0
   \<and> movie args_movie \<and> \<not> path_exists world0 (fid args_movie)
   \<and> (\<exists>h1 a1. startup world0 host0 args_movie = Inr (world0, h1, a1, config0))"
proof -
  have m: "\<not> movie args0" "fid args0 = ''model.vtk''" "cfg_fid args0 = ''config.py''"
    "output_dir args0 = ''out''" "movie args_movie" "cfg_fid args_movie = ''config.py''"
    "output_dir args_movie = ''out''"
    by (simp_all add: args0_def args_movie_def)
  have e: "\<not> path_exists world_bare (fid args0)"
    "path_exists world_nocfg (fid args0)"
    "\<not> path_exists world_nocfg (cfg_fid args0)"
    "path_exists world_nocfg ''out''"
    "\<not> path_exists world0 (fid args_movie)"
    "path_exists world0 ''out''" "path_exists world0 ''config.py''"
    "import_config world0 ''config.py'' = Inr config0"
    by (simp_all add: path_exists_def world_bare_def world_nocfg_def world0_def args0_def
        args_movie_def)
  have a: "startup world_bare host0 args0 = Inl (AssertionError ''model.vtk does not exist'')"
    "main world_bare host0 args0
        = Aborted (AssertionError ''model.vtk does not exist'') world_bare host0"
    using startup_asserts [of args0 world_bare host0] m e by simp_all
  have b: "main world_nocfg host0 args0
        = Aborted (AssertionError
                     ''PyrateView requires a valid .py configuration file: config.py'')
            world_nocfg host0"
    using startup_asserts [of args0 world_nocfg host0] m e by simp
  have c: "\<exists>h1 a1. startup world0 host0 args_movie = Inr (world0, h1, a1, config0)"
    using startup_asserts [of args_movie world0 host0] m e by auto
  show ?thesis using m e a b c by blast
qed

text \<open>
  The unamended statement fails under the movie option: the input path names no
  existing file, startup completes, and a frame is rendered and saved.
\<close>

theorem startup_movie_counterexample:
  "\<not> path_exists world0 (fid args_movie)
   \<and> startup world0 host0 args_movie = Inr (world0, host_setup, args_movie, config0)
   \<and> main world0 host0 args_movie = Finished world0 host_movie
   \<and> screenshots host_movie = [(''out/frames/a.inp.png'', (2100, 2100), True)]"
proof -
  have e: "\<not> path_exists world0 (fid args_movie)"
    by (simp add: path_exists_def world0_def args_movie_def)
  have c: "check world0 args_movie = Inr (world0, args_movie)"
    by (simp add: check_def path_exists_def world0_def args_movie_def)
  have s: "setup_main world0 host0 ''config.py'' = Inr (host_setup, config0)"
    by (simp add: setup_main_def path_exists_def world0_def host_setup_def host0_def
        config0_def SetSize_def Render_def GetActiveViewOrCreate_def)
  have f: "cfg_fid args_movie = ''config.py''" by (simp add: args_movie_def)
  have st: "startup world0 host0 args_movie = Inr (world0, host_setup, args_movie, config0)"
    by (simp add: startup_def parse_args_def c s f)
  have mn: "main world0 host0 args_movie = Finished world0 host_movie"
    by (simp add: main_def parse_args_def c s f host_movie_def)
  have sc: "screenshots host_movie = [(''out/frames/a.inp.png'', (2100, 2100), True)]"
    by (simp add: host_movie_def movie_frame_def world0_def args_movie_def config0_def
      movie_frame_step_def SurfaceMovie_def AVSUCDReader_new_def new_proxy_def Show_def
      update_proxy_def rescale_lut_def rescale_pwf_def set_display_scale_def ResetCamera_def
      screenshot_def SaveScreenshot_def path_join_def host_setup_def host0_def)
  show ?thesis using e st mn sc by blast
qed

lemma movie_frame_step_screenshots:
  "screenshots (movie_frame_step a cfg p h)
     = screenshots h @ [(path_join (output_dir a) (p @ ''.png''), resolution cfg, True)]"
  by (simp add: movie_frame_step_def SurfaceMovie_def AVSUCDReader_new_def new_proxy_def
      Show_def update_proxy_def rescale_lut_def rescale_pwf_def set_display_scale_def
      ResetCamera_def screenshot_def SaveScreenshot_def Let_def)

lemma movie_frames_screenshots:
  "screenshots (fold (movie_frame_step a cfg) ps h)
     = screenshots h
       @ map (\<lambda>p. (path_join (output_dir a) (p @ ''.png''), resolution cfg, True)) ps"
  by (induction ps arbitrary: h) (simp_all add: movie_frame_step_screenshots)

lemma movie_frame_step_fid_out:
  "movie_frame_step (a\<lparr>fid_out := f\<rparr>) cfg p h = movie_frame_step a cfg p h"
  by (simp add: movie_frame_step_def)

text \<open>
  C10 (amended). Whenever the checks of \<open>check\<close> pass (the input exists or the movie option
  is given; the output directory exists or can be made), \<open>parse_args\<close> returns the
  namespace with \<open>fid_out\<close> set to \<open>fid + '.png'\<close> if the option was not given and to the
  given value otherwise, every other field as parsed. The routine \<open>cartesian\<close> saves its
  screenshot under that name in the output directory. The routine \<open>movie_frame\<close> does not
  read \<open>fid_out\<close>: it saves one screenshot per file that the input pattern matches, in
  sorted order, each named after the matched file with \<open>.png\<close> appended, in the output
  directory; so does every run under the movie option.
\<close>

theorem check_fid_out:
  assumes "movie a \<or> path_exists w (fid a)"
    and "path_exists w (output_dir a) \<or> mkdir_error w (output_dir a) = None"
  shows "\<exists>w1 a1.
           parse_args w a = Inr (w1, a1)
           \<and> fid_out a1 = Some (case fid_out a of None \<Rightarrow> fid a @ ''.png'' | Some f \<Rightarrow> f)
           \<and> a1 = a\<lparr>fid_out := fid_out a1\<rparr>
           \<and> (\<forall>colors cfg h h'. cartesian colors a1 cfg h = Inr h' \<longrightarrow>
                 screenshots h' \<noteq> []
                 \<and> last (screenshots h')
                     = (path_join (output_dir a)
                          (case fid_out a of None \<Rightarrow> fid a @ ''.png'' | Some f \<Rightarrow> f),
                        resolution cfg, True))
           \<and> (\<forall>cfg h. screenshots (movie_frame w1 a1 cfg h)
                  = screenshots h
                    @ map (\<lambda>p. (path_join (output_dir a) (p @ ''.png''), resolution cfg, True))
                        (sort (glob w1 (fid a))))
           \<and> (\<forall>h h1 a2 cfg. movie a \<and> startup w h a = Inr (w1, h1, a2, cfg) \<longrightarrow>
                 (\<exists>h'. main w h a = Finished w1 h'
                    \<and> screenshots h'
                        = screenshots h1
                          @ map (\<lambda>p. (path_join (output_dir a) (p @ ''.png''),
                                       resolution cfg, True))
                              (sort (glob w1 (fid a)))))"
proof -
  have "(if \<not> path_exists w (output_dir a) then mkdir w (output_dir a) else Inr w)
          = Inr (if \<not> path_exists w (output_dir a)
                 then w\<lparr>existing := output_dir a # spellings w (output_dir a) @ existing w\<rparr>
                 else w)"
    using assms(2) by (auto simp: mkdir_def)
  then have "\<exists>w1 a1. check w a = Inr (w1, a1)"
    using assms(1) by (simp add: check_def)
  then obtain w1 a1 where c: "check w a = Inr (w1, a1)" by blast
  from check_Inr [OF c]
  have a1: "a1 = a\<lparr>fid_out := Some (case fid_out a of None \<Rightarrow> fid a @ ''.png'' | Some f \<Rightarrow> f)\<rparr>"
    by blast
  have f: "fid_out a1 = Some (case fid_out a of None \<Rightarrow> fid a @ ''.png'' | Some f \<Rightarrow> f)"
    by (subst a1) simp
  have o: "output_dir a1 = output_dir a" "fid a1 = fid a" by (subst a1, simp)+
  have s: "\<forall>colors cfg h h'. cartesian colors a1 cfg h = Inr h' \<longrightarrow>
                 screenshots h' \<noteq> []
                 \<and> last (screenshots h')
                     = (path_join (output_dir a)
                          (case fid_out a of None \<Rightarrow> fid a @ ''.png'' | Some f \<Rightarrow> f),
                        resolution cfg, True)"
    using cartesian_screenshot [where a = a1] f o by fastforce
  have mf: "\<forall>cfg h. screenshots (movie_frame w1 a1 cfg h)
                  = screenshots h
                    @ map (\<lambda>p. (path_join (output_dir a) (p @ ''.png''), resolution cfg, True))
                        (sort (glob w1 (fid a)))"
    by (simp add: movie_frame_def movie_frames_screenshots o)
  have mn: "\<forall>h h1 a2 cfg. movie a \<and> startup w h a = Inr (w1, h1, a2, cfg) \<longrightarrow>
                 (\<exists>h'. main w h a = Finished w1 h'
                    \<and> screenshots h'
                        = screenshots h1
                          @ map (\<lambda>p. (path_join (output_dir a) (p @ ''.png''),
                                       resolution cfg, True))
                              (sort (glob w1 (fid a))))"
  proof (intro allI impI)
    fix h h1 a2 cfg
    assume "movie a \<and> startup w h a = Inr (w1, h1, a2, cfg)"
    then have st: "startup w h a = Inr (w1, h1, a2, cfg)" by blast
    then have a2: "a2 = a1"
      using c by (auto simp: startup_def parse_args_def split: sum.splits)
    have "main w h a = Finished w1 (movie_frame w1 a1 cfg h1)"
      using st c a2 by (auto simp: startup_def main_def parse_args_def split: sum.splits)
    then show "\<exists>h'. main w h a = Finished w1 h'
                    \<and> screenshots h'
                        = screenshots h1
                          @ map (\<lambda>p. (path_join (output_dir a) (p @ ''.png''),
                                       resolution cfg, True))
                              (sort (glob w1 (fid a)))"
      using mf by simp
  qed
  have "a1 = a\<lparr>fid_out := fid_out a1\<rparr>" using a1 f by simp
  then show ?thesis using c f s mf mn by (auto simp: parse_args_def)
qed

theorem check_fid_out_witness:
  "path_exists world0 (fid args0) \<and> path_exists world0 (output_dir args0)
   \<and> fid_out args0 = None
   \<and> parse_args world0 args0 = Inr (world0, args0\<lparr>fid_out := Some ''model.vtk.png''\<rparr>)
   \<and> (\<exists>w1. parse_args world0 (args0\<lparr>fid_out := Some ''slice.png''\<rparr>)
              = Inr (w1, args0\<lparr>fid_out := Some ''slice.png''\<rparr>))
   \<and> (\<exists>h. cartesian no_colors args1 config0 host_setup = Inr h
         \<and> last (screenshots h) = (''out/model.vtk.png'', (2100, 2100), True))"
proof -
  have p: "path_exists world0 (fid args0)" "path_exists world0 (output_dir args0)"
    "path_exists world0 (fid (args0\<lparr>fid_out := Some ''slice.png''\<rparr>))"
    "path_exists world0 (output_dir (args0\<lparr>fid_out := Some ''slice.png''\<rparr>))"
    by (simp_all add: path_exists_def world0_def args0_def)
  have n: "fid_out args0 = None" by (simp add: args0_def)
  have a: "parse_args world0 args0 = Inr (world0, args0\<lparr>fid_out := Some ''model.vtk.png''\<rparr>)"
    by (simp add: parse_args_def check_args0)
  from check_fid_out [of "args0\<lparr>fid_out := Some ''slice.png''\<rparr>" world0] p
  have b: "\<exists>w1. parse_args world0 (args0\<lparr>fid_out := Some ''slice.png''\<rparr>)
              = Inr (w1, args0\<lparr>fid_out := Some ''slice.png''\<rparr>)"
    by auto
  have c: "\<exists>h. cartesian no_colors args1 config0 host_setup = Inr h
         \<and> last (screenshots h) = (''out/model.vtk.png'', (2100, 2100), True)"
    using cartesian_args0 by auto
  show ?thesis using p n a b c by blast
qed

text \<open>
  The unamended statement fails on a run: under the movie option with the output name
  \<open>frame.png\<close> given, the frame is saved as \<open>out/frames/a.inp.png\<close>.
\<close>

theorem fid_out_movie_counterexample:
  "movie args_movie \<and> fid_out args_movie = Some ''frame.png''
   \<and> main world0 host0 args_movie = Finished world0 host_movie
   \<and> map fst (screenshots host_movie) = [''out/frames/a.inp.png'']
   \<and> path_join (output_dir args_movie) ''frame.png'' = ''out/frame.png''"
proof -
  have a: "movie args_movie" "fid_out args_movie = Some ''frame.png''"
    "cfg_fid args_movie = ''config.py''"
    "path_join (output_dir args_movie) ''frame.png'' = ''out/frame.png''"
    by (simp_all add: args_movie_def path_join_def)
  have c: "check world0 args_movie = Inr (world0, args_movie)"
    by (simp add: check_def path_exists_def world0_def args_movie_def)
  have s: "setup_main world0 host0 ''config.py'' = Inr (host_setup, config0)"
    by (simp add: setup_main_def path_exists_def world0_def host_setup_def host0_def
        config0_def SetSize_def Render_def GetActiveViewOrCreate_def)
  have mn: "main world0 host0 args_movie = Finished world0 host_movie"
    by (simp add: main_def parse_args_def c s a host_movie_def)
  have g: "sort (glob world0 (fid args_movie)) = [''frames/a.inp'']"
    by (simp add: world0_def args_movie_def)
  have sc: "map fst (screenshots host_movie) = [''out/frames/a.inp.png'']"
    by (simp add: host_movie_def movie_frame_def movie_frame_step_screenshots g)
       (simp add: host_setup_def host0_def path_join_def args_movie_def)
  show ?thesis using a mn sc by blast
qed

end
